theory Spec2Isabelle
  imports Main "HOL-Library.List_Lexorder"
begin

section \<open>Text\<close>

text \<open>
  A Python \<open>str\<close> is a sequence of Unicode code points, and the report markers of
  the program lie outside ASCII, so a text is a list of code points. ASCII literals are
  written through \<open>ascii\<close>.
\<close>

type_synonym pystr = "nat list"

definition ascii :: "string \<Rightarrow> pystr" where
  "ascii s = map of_char s"

text \<open>The markers the program puts in front of its messages.\<close>

definition mark_warn :: pystr where "mark_warn = [0x26A0, 0xFE0F]"
definition mark_ok :: pystr where "mark_ok = [0x2705]"
definition mark_err :: pystr where "mark_err = [0x274C]"
definition mark_wrench :: pystr where "mark_wrench = [0x1F527]"
definition mark_brain :: pystr where "mark_brain = [0x1F9E0]"
definition mark_pin :: pystr where "mark_pin = [0x1F4CC]"
definition mark_glass :: pystr where "mark_glass = [0x1F50D]"
definition mark_thread :: pystr where "mark_thread = [0x1F9F5]"
definition mark_disk :: pystr where "mark_disk = [0x1F4BE]"
definition mark_compass :: pystr where "mark_compass = [0x1F9ED]"
definition mark_desktop :: pystr where "mark_desktop = [0x1F5A5, 0xFE0F]"
definition mark_puzzle :: pystr where "mark_puzzle = [0x1F9E9]"
definition mark_minidisc :: pystr where "mark_minidisc = [0x1F4BD]"
definition mark_page :: pystr where "mark_page = [0x1F4C4]"
definition mark_clipboard :: pystr where "mark_clipboard = [0x1F4CB]"

text \<open>\<open>s.startswith(p)\<close> and the substring test \<open>sub in s\<close>.\<close>

fun startswith :: "pystr \<Rightarrow> pystr \<Rightarrow> bool" where
  "startswith s [] = True"
| "startswith [] (p # ps) = False"
| "startswith (c # cs) (p # ps) = (c = p \<and> startswith cs ps)"

fun py_in :: "pystr \<Rightarrow> pystr \<Rightarrow> bool" where
  "py_in sub [] = (sub = [])"
| "py_in sub (c # cs) = (startswith (c # cs) sub \<or> py_in sub cs)"

text \<open>
  \<open>str.splitlines()\<close>: a line ends at a line boundary, \<open>\r\n\<close> is one boundary, and
  a boundary at the very end opens no further line. The boundaries of a \<open>str\<close> are
  LF, VT, FF, CR, FS, GS, RS (code points 10 to 13 and 28 to 30), NEL (133), and the line and
  paragraph separators (8232, 8233).
\<close>

definition is_linebreak :: "nat \<Rightarrow> bool" where
  "is_linebreak c = (c \<in> set [10, 11, 12, 13, 28, 29, 30, 133, 8232, 8233])"

fun splitlines_from :: "pystr \<Rightarrow> pystr \<Rightarrow> pystr list" where
  "splitlines_from cur [] = (if cur = [] then [] else [cur])"
| "splitlines_from cur (c # cs) =
     (if c = 13 then
        (case cs of
           [] \<Rightarrow> [cur]
         | d # ds \<Rightarrow> if d = 10 then cur # splitlines_from [] ds
                    else cur # splitlines_from [] (d # ds))
      else if is_linebreak c then cur # splitlines_from [] cs
      else splitlines_from (cur @ [c]) cs)"

definition splitlines :: "pystr \<Rightarrow> pystr list" where
  "splitlines s = splitlines_from [] s"

text \<open>\<open>str(n)\<close> of an integer: its decimal digits, with a minus sign when negative.\<close>

fun dec_nat :: "nat \<Rightarrow> pystr" where
  "dec_nat n = (if n < 10 then [48 + n] else dec_nat (n div 10) @ [48 + n mod 10])"

declare dec_nat.simps [simp del]

definition str_int :: "int \<Rightarrow> pystr" where
  "str_int i = (if i < 0 then 45 # dec_nat (nat (- i)) else dec_nat (nat i))"

section \<open>The report logger (report_logger.py)\<close>

text \<open>
  \<open>console\<close> is what \<open>print\<close> has written, one entry per call; \<open>buffer\<close> is the
  content of the \<open>StringIO\<close>.
\<close>

record report_logger =
  console :: "pystr list"
  buffer :: pystr

definition ReportLogger_init :: report_logger where
  "ReportLogger_init = \<lparr>console = [], buffer = []\<rparr>"

definition ReportLogger_write :: "pystr \<Rightarrow> report_logger \<Rightarrow> report_logger" where
  "ReportLogger_write msg l = l\<lparr>console := console l @ [msg], buffer := buffer l @ msg @ [10]\<rparr>"

text \<open>A run of the checker hands its messages to \<open>write\<close> one after the other.\<close>

definition write_all :: "pystr list \<Rightarrow> report_logger \<Rightarrow> report_logger" where
  "write_all msgs l = foldl (\<lambda>l' m. ReportLogger_write m l') l msgs"

text \<open>
  \<open>export\<close> returns the text it writes to the file together with the logger, whose
  console has the confirmation line.
\<close>

definition ReportLogger_export :: "pystr \<Rightarrow> report_logger \<Rightarrow> pystr \<times> report_logger" where
  "ReportLogger_export filename l =
     (buffer l, l\<lparr>console := console l @ [[10] @ mark_page @ ascii '' Markdown report saved to: '' @ filename]\<rparr>)"

text \<open>
  The document \<open>json.dump\<close> receives, as a value: \<open>json.load\<close> of the written file
  gives this value back.
\<close>

datatype json = JString pystr | JArray "json list" | JObject "(pystr \<times> json) list"

definition ReportLogger_export_json :: "pystr \<Rightarrow> report_logger \<Rightarrow> json \<times> report_logger" where
  "ReportLogger_export_json filename l =
     (let lines = splitlines (buffer l);
          report = JObject [(ascii ''report'', JArray (map JString lines))]
      in (report, l\<lparr>console := console l @ [[10] @ mark_page @ ascii '' JSON report saved to: '' @ filename]\<rparr>))"

text \<open>Reading the line list back from a parsed document: \<open>doc["report"]\<close>.\<close>

fun json_strings :: "json list \<Rightarrow> pystr list option" where
  "json_strings [] = Some []"
| "json_strings (JString s # js) = map_option (\<lambda>ss. s # ss) (json_strings js)"
| "json_strings (_ # js) = None"

fun report_of :: "json \<Rightarrow> pystr list option" where
  "report_of (JObject kvs) =
     (case map_of kvs (ascii ''report'') of Some (JArray js) \<Rightarrow> json_strings js | _ \<Rightarrow> None)"
| "report_of _ = None"

text \<open>The two local lists of \<open>print_summary\<close>, and the function itself.\<close>

definition summary_warnings :: "report_logger \<Rightarrow> pystr list" where
  "summary_warnings l =
     filter (\<lambda>line. py_in mark_warn line \<or> py_in mark_err line) (splitlines (buffer l))"

definition summary_successes :: "report_logger \<Rightarrow> pystr list" where
  "summary_successes l = filter (\<lambda>line. py_in mark_ok line) (splitlines (buffer l))"

definition summary_text :: "report_logger \<Rightarrow> pystr list" where
  "summary_text l =
     (let warnings = summary_warnings l; successes = summary_successes l
      in [[10] @ mark_clipboard @ ascii '' Summary:'',
          ascii '' - '' @ mark_ok @ ascii '' Successes: '' @ str_int (int (length successes)),
          ascii '' - '' @ mark_warn @ ascii '' Warnings: '' @ str_int (int (length warnings))]
         @ (if warnings \<noteq> [] then
              ascii '' - Highlighted Issues:'' # map (\<lambda>line. ascii ''   '' @ line) (take 5 warnings)
            else []))"

definition ReportLogger_print_summary :: "report_logger \<Rightarrow> report_logger" where
  "ReportLogger_print_summary l = l\<lparr>console := console l @ summary_text l\<rparr>"

section \<open>Values, exceptions and the effects of a check\<close>

text \<open>
  The values the driver delivers and the checks handle: \<open>None\<close> (SQL NULL), integers and
  texts. A \<open>bit\<close> column (\<open>is_online\<close>) arrives as a Python \<open>bool\<close>, which is an
  integer with \<open>False == 0\<close> and \<open>True == 1\<close>; the program only compares it with \<open>0\<close>
  and \<open>1\<close>, so it is \<open>IntV 0\<close> or \<open>IntV 1\<close> here. A timestamp stands as the text
  \<open>str()\<close> gives of it.
\<close>

datatype val = NoneV | IntV int | StrV pystr

text \<open>
  The exceptions of the model. \<open>DataSourceError\<close> is whatever the driver or a probe
  raises (\<open>pyodbc.Error\<close>); \<open>NameError\<close> carries the name of a local variable that is
  read before it is assigned (Python raises \<open>UnboundLocalError\<close>, a \<open>NameError\<close>).
\<close>

datatype exn = DataSourceError | NameError string | KeyError string | TypeError | IndexError
  | OverflowError

text \<open>A result row as \<open>query_dict\<close> builds it: a dictionary from column name to value.\<close>

type_synonym row = "string \<rightharpoonup> val"

text \<open>
  A piece of the program that emits lines through \<open>self.out\<close> and then returns a value
  or leaves with an exception: the lines emitted, in order, and the outcome.
\<close>

type_synonym 'a run = "pystr list \<times> (exn + 'a)"

definition ret :: "'a \<Rightarrow> 'a run" where
  "ret x = ([], Inr x)"

definition out :: "pystr \<Rightarrow> unit run" where
  "out msg = ([msg], Inr ())"

definition raise :: "exn \<Rightarrow> 'a run" where
  "raise e = ([], Inl e)"

definition lift :: "exn + 'a \<Rightarrow> 'a run" where
  "lift r = ([], r)"

definition bind_run :: "'a run \<Rightarrow> ('a \<Rightarrow> 'b run) \<Rightarrow> 'b run" where
  "bind_run m f =
     (case m of
        (ls, Inl e) \<Rightarrow> (ls, Inl e)
      | (ls, Inr x) \<Rightarrow> (case f x of (ls', r) \<Rightarrow> (ls @ ls', r)))"

definition seq_run :: "unit run \<Rightarrow> 'a run \<Rightarrow> 'a run" where
  "seq_run m n = bind_run m (\<lambda>_. n)"

text \<open>A block of statements, run in order up to the first exception.\<close>

definition steps :: "unit run list \<Rightarrow> unit run" where
  "steps ms = foldr seq_run ms (ret ())"

text \<open>\<open>try: m  except Exception as e: h e\<close>: the lines emitted before the exception stay.\<close>

definition try_except :: "'a run \<Rightarrow> (exn \<Rightarrow> 'a run) \<Rightarrow> 'a run" where
  "try_except m h =
     (case m of
        (ls, Inl e) \<Rightarrow> (case h e of (ls', r) \<Rightarrow> (ls @ ls', r))
      | (ls, Inr x) \<Rightarrow> (ls, Inr x))"

text \<open>
  \<open>k in d\<close>, \<open>d[k]\<close>, \<open>str(v)\<close> as an f-string renders a value, and \<open>repr\<close> of a
  list.
\<close>

definition has_key :: "row \<Rightarrow> string \<Rightarrow> bool" where
  "has_key d k = (d k \<noteq> None)"

definition getitem :: "row \<Rightarrow> string \<Rightarrow> exn + val" where
  "getitem d k = (case d k of None \<Rightarrow> Inl (KeyError k) | Some v \<Rightarrow> Inr v)"

fun py_str :: "val \<Rightarrow> pystr" where
  "py_str NoneV = ascii ''None''"
| "py_str (IntV i) = str_int i"
| "py_str (StrV s) = s"

text \<open>
  \<open>repr\<close> of a text puts it in quotes; Python also escapes quotes, backslashes and
  unprintable characters in it, which is not modelled (the lists the program prints hold
  CPU numbers).
\<close>

fun py_repr :: "val \<Rightarrow> pystr" where
  "py_repr (StrV s) = [39] @ s @ [39]"
| "py_repr v = py_str v"

fun join_comma :: "pystr list \<Rightarrow> pystr" where
  "join_comma [] = []"
| "join_comma [s] = s"
| "join_comma (s # t # ss) = s @ ascii '', '' @ join_comma (t # ss)"

definition repr_list :: "val list \<Rightarrow> pystr" where
  "repr_list vs = ascii ''['' @ join_comma (map py_repr vs) @ ascii '']''"

text \<open>
  A Python \<open>set\<close> of values is a list without repetitions; the order of the list is
  never observed (the program sorts a set before it prints it).
\<close>

definition set_add :: "val \<Rightarrow> val list \<Rightarrow> val list" where
  "set_add v s = List.insert v s"

definition set_of :: "val list \<Rightarrow> val list" where
  "set_of vs = remdups vs"

definition set_minus :: "val list \<Rightarrow> val list \<Rightarrow> val list" where
  "set_minus a b = filter (\<lambda>v. v \<notin> set b) a"

text \<open>
  \<open>sorted(s)\<close>: integers by value, texts by code points; it raises \<open>TypeError\<close> as soon
  as two values have to be compared that are not both integers or both texts.
\<close>

fun int_of :: "val \<Rightarrow> int option" where
  "int_of (IntV i) = Some i"
| "int_of _ = None"

fun str_of :: "val \<Rightarrow> pystr option" where
  "str_of (StrV s) = Some s"
| "str_of _ = None"

definition py_sorted :: "val list \<Rightarrow> exn + val list" where
  "py_sorted vs =
     (if length vs \<le> 1 then Inr vs
      else if list_all (\<lambda>v. int_of v \<noteq> None) vs then Inr (map IntV (sort (map (\<lambda>v. the (int_of v)) vs)))
      else if list_all (\<lambda>v. str_of v \<noteq> None) vs then Inr (map StrV (sort (map (\<lambda>v. the (str_of v)) vs)))
      else Inl TypeError)"

text \<open>\<open>a < b\<close> on values.\<close>

fun py_less :: "val \<Rightarrow> val \<Rightarrow> exn + bool" where
  "py_less (IntV a) (IntV b) = Inr (a < b)"
| "py_less (StrV a) (StrV b) = Inr (a < b)"
| "py_less _ _ = Inl TypeError"

text \<open>
  Floats are IEEE doubles: 53 significant bits, magnitudes below \<open>2 ^ 1024\<close>. An integer
  becomes the nearest double, ties going to the even significand; \<open>round53\<close> is the value
  of that double, itself an integer, and an integer of fewer than 54 bits is its own
  double. The conversion raises \<open>OverflowError\<close> when the nearest double would lie outside
  the range.
\<close>

fun bit_length :: "nat \<Rightarrow> nat" where
  "bit_length n = (if n = 0 then 0 else Suc (bit_length (n div 2)))"

declare bit_length.simps [simp del]

definition round53 :: "int \<Rightarrow> int" where
  "round53 v =
     (if \<bar>v\<bar> < 2 ^ 53 then v
      else (let k = bit_length (nat \<bar>v\<bar>) - 53;
                q = \<bar>v\<bar> div 2 ^ k;
                r = \<bar>v\<bar> mod 2 ^ k
            in sgn v * ((if 2 ^ k < 2 * r \<or> (2 * r = 2 ^ k \<and> odd q) then q + 1 else q) * 2 ^ k)))"

definition float_of_int :: "int \<Rightarrow> exn + int" where
  "float_of_int v = (if 2 ^ 1024 \<le> \<bar>round53 v\<bar> then Inl OverflowError else Inr (round53 v))"

text \<open>
  \<open>a < b * 0.25\<close>: the product is evaluated first. It converts the integer \<open>b\<close> to a
  float; the multiplication by \<open>0.25\<close> is then exact, and Python compares the integer
  \<open>a\<close> with the float exactly. A text or \<open>None\<close> on either side raises \<open>TypeError\<close>.
\<close>

fun py_less_quarter :: "val \<Rightarrow> val \<Rightarrow> exn + bool" where
  "py_less_quarter a (IntV b) =
     (case float_of_int b of
        Inl e \<Rightarrow> Inl e
      | Inr f \<Rightarrow> (case a of IntV i \<Rightarrow> Inr (4 * i < f) | _ \<Rightarrow> Inl TypeError))"
| "py_less_quarter _ _ = Inl TypeError"

text \<open>
  \<open>int(v / 1024)\<close>: the true division of two integers gives the double nearest to the
  quotient, which is the double nearest to \<open>v\<close> divided by \<open>1024\<close>, or raises
  \<open>OverflowError\<close> when that is outside the range; \<open>int\<close> truncates towards zero.
\<close>

definition trunc_div :: "int \<Rightarrow> int \<Rightarrow> int" where
  "trunc_div a b = sgn a * sgn b * (\<bar>a\<bar> div \<bar>b\<bar>)"

fun py_int_div_1024 :: "val \<Rightarrow> exn + val" where
  "py_int_div_1024 (IntV i) =
     (if 2 ^ 1034 \<le> \<bar>round53 i\<bar> then Inl OverflowError
      else Inr (IntV (trunc_div (round53 i) 1024)))"
| "py_int_div_1024 _ = Inl TypeError"

section \<open>The data source and the host\<close>

text \<open>
  What the server answers, as one snapshot. A view is the list of its rows, each with all
  the columns the view has, or \<open>Inl e\<close> when reading it fails. \<open>cursor_fault\<close> is the
  exception of \<open>conn.cursor()\<close>, if it raises. \<open>advanced_options\<close> is the exception, if
  any, of the batch \<open>SET IMPLICIT_TRANSACTIONS OFF; EXEC sp_configure 'show advanced
  options', 1; RECONFIGURE;\<close> with its commit. \<open>sp_configure\<close> gives, for an option name,
  what \<open>fetchone()\<close> returns after \<open>EXEC sp_configure '<name>'\<close>: the columns of a row,
  or \<open>None\<close>. \<open>dm_exec_requests\<close> is \<open>sys.dm_exec_requests\<close> with the \<open>sql_text\<close> the
  CROSS APPLY adds. \<open>cursor.close()\<close> does not fail.
\<close>

record conn =
  cursor_fault :: "exn option"
  advanced_options :: "exn option"
  sp_configure :: "string \<Rightarrow> exn + val list option"
  dm_os_schedulers :: "exn + row list"
  dm_os_memory_nodes :: "exn + row list"
  dm_os_sys_info :: "exn + row list"
  dm_os_sys_memory :: "exn + row list"
  dm_exec_requests :: "exn + row list"
  dm_exec_query_memory_grants :: "exn + row list"

text \<open>What \<open>subprocess.getoutput\<close> gives for each command the program runs.\<close>

record host =
  systeminfo :: "exn + pystr"
  wmic_cpu :: "exn + pystr"
  wmic_diskdrive :: "exn + pystr"
  wmic_nic :: "exn + pystr"

text \<open>
  The result of a SELECT as the cursor delivers it: the column names of
  \<open>cursor.description\<close> and the rows of \<open>fetchall()\<close>, each with one value per column.
  A column the view does not have makes the statement fail.
\<close>

type_synonym result_set = "string list \<times> val list list"

definition select_columns :: "string list \<Rightarrow> row list \<Rightarrow> exn + result_set" where
  "select_columns cols tab =
     (if list_all (\<lambda>r. list_all (\<lambda>c. r c \<noteq> None) cols) tab
      then Inr (cols, map (\<lambda>r. map (\<lambda>c. the (r c)) cols) tab)
      else Inl DataSourceError)"

definition int_column :: "string \<Rightarrow> row \<Rightarrow> int option" where
  "int_column c r = (case r c of Some (IntV i) \<Rightarrow> Some i | _ \<Rightarrow> None)"

text \<open>
  \<open>SELECT scheduler_id, cpu_id, is_online, status FROM sys.dm_os_schedulers
  WHERE scheduler_id < 255 ORDER BY scheduler_id\<close>
\<close>

definition scheduler_query :: "conn \<Rightarrow> exn + result_set" where
  "scheduler_query c =
     (case dm_os_schedulers c of
        Inl e \<Rightarrow> Inl e
      | Inr tab \<Rightarrow>
          select_columns [''scheduler_id'', ''cpu_id'', ''is_online'', ''status'']
            (sort_key (\<lambda>r. the (int_column ''scheduler_id'' r))
               (filter (\<lambda>r. case int_column ''scheduler_id'' r of Some i \<Rightarrow> i < 255 | None \<Rightarrow> False) tab)))"

text \<open>
  \<open>SELECT memory_node_id, virtual_address_space_reserved_kb,
  virtual_address_space_committed_kb, locked_page_allocations_kb
  FROM sys.dm_os_memory_nodes WHERE memory_node_id != 64\<close>
\<close>

definition memory_nodes_query :: "conn \<Rightarrow> exn + result_set" where
  "memory_nodes_query c =
     (case dm_os_memory_nodes c of
        Inl e \<Rightarrow> Inl e
      | Inr tab \<Rightarrow>
          select_columns [''memory_node_id'', ''virtual_address_space_reserved_kb'',
                          ''virtual_address_space_committed_kb'', ''locked_page_allocations_kb'']
            (filter (\<lambda>r. case int_column ''memory_node_id'' r of Some i \<Rightarrow> i \<noteq> 64 | None \<Rightarrow> False) tab))"

text \<open>
  \<open>SELECT cpu_count, hyperthread_ratio, physical_memory_kb / 1024 AS physical_memory_mb,
  sqlserver_start_time, virtual_machine_type_desc FROM sys.dm_os_sys_info\<close>: the division
  is the integer division of SQL, NULL for NULL.
\<close>

definition sys_info_query :: "conn \<Rightarrow> exn + result_set" where
  "sys_info_query c =
     (case dm_os_sys_info c of
        Inl e \<Rightarrow> Inl e
      | Inr tab \<Rightarrow>
          if list_all (\<lambda>r. case r ''physical_memory_kb'' of Some (StrV s) \<Rightarrow> False | Some v \<Rightarrow> True | None \<Rightarrow> False) tab
          then select_columns [''cpu_count'', ''hyperthread_ratio'', ''physical_memory_mb'',
                               ''sqlserver_start_time'', ''virtual_machine_type_desc'']
                 (map (\<lambda>r. r(''physical_memory_mb'' \<mapsto>
                          (case r ''physical_memory_kb'' of
                             Some (IntV kb) \<Rightarrow> IntV (trunc_div kb 1024)
                           | _ \<Rightarrow> NoneV))) tab)
          else Inl DataSourceError)"

text \<open>
  \<open>SELECT total_physical_memory_kb, available_physical_memory_kb FROM sys.dm_os_sys_memory\<close>
\<close>

definition sys_memory_query :: "conn \<Rightarrow> exn + result_set" where
  "sys_memory_query c =
     (case dm_os_sys_memory c of
        Inl e \<Rightarrow> Inl e
      | Inr tab \<Rightarrow> select_columns [''total_physical_memory_kb'', ''available_physical_memory_kb''] tab)"

text \<open>
  The active requests: \<open>SELECT r.session_id, r.status, r.command, r.start_time, r.cpu_time,
  r.total_elapsed_time, t.text AS sql_text ... WHERE r.session_id > 50
  ORDER BY r.total_elapsed_time DESC\<close>
\<close>

definition requests_query :: "conn \<Rightarrow> exn + result_set" where
  "requests_query c =
     (case dm_exec_requests c of
        Inl e \<Rightarrow> Inl e
      | Inr tab \<Rightarrow>
          select_columns [''session_id'', ''status'', ''command'', ''start_time'', ''cpu_time'',
                          ''total_elapsed_time'', ''sql_text'']
            (sort_key (\<lambda>r. - the (int_column ''total_elapsed_time'' r))
               (filter (\<lambda>r. (case int_column ''session_id'' r of Some i \<Rightarrow> 50 < i | None \<Rightarrow> False)
                             \<and> int_column ''total_elapsed_time'' r \<noteq> None) tab)
             @ filter (\<lambda>r. (case int_column ''session_id'' r of Some i \<Rightarrow> 50 < i | None \<Rightarrow> False)
                             \<and> int_column ''total_elapsed_time'' r = None) tab))"

text \<open>
  \<open>SELECT session_id, grant_time, requested_memory_kb, granted_memory_kb
  FROM sys.dm_exec_query_memory_grants WHERE granted_memory_kb < requested_memory_kb\<close>
\<close>

definition memory_grants_query :: "conn \<Rightarrow> exn + result_set" where
  "memory_grants_query c =
     (case dm_exec_query_memory_grants c of
        Inl e \<Rightarrow> Inl e
      | Inr tab \<Rightarrow>
          select_columns [''session_id'', ''grant_time'', ''requested_memory_kb'', ''granted_memory_kb'']
            (filter (\<lambda>r. case (int_column ''granted_memory_kb'' r, int_column ''requested_memory_kb'' r) of
                            (Some g, Some q) \<Rightarrow> g < q | _ \<Rightarrow> False) tab))"

section \<open>The checks (InfraMathDef.py, class NumaChecker)\<close>

definition NumaChecker_init :: "unit run" where
  "NumaChecker_init = out (mark_wrench @ ascii '' Infrastructure Tuning Toolkit - Diagnostic Tool'')"

text \<open>
  \<open>query_dict\<close>: the handlers log and re-raise, so an exception of the statement leaves
  the function as it is. When \<open>conn.cursor()\<close> itself raises, the \<open>finally\<close> clause runs
  \<open>cursor.close()\<close> on a name that was never assigned, and that \<open>NameError\<close> replaces
  the exception. Each row becomes \<open>dict(zip(columns, row))\<close>, where a repeated key keeps
  its last value.
\<close>

definition query_dict :: "conn \<Rightarrow> exn + result_set \<Rightarrow> row list run" where
  "query_dict c res =
     (case cursor_fault c of
        Some e \<Rightarrow> raise (NameError ''cursor'')
      | None \<Rightarrow>
          (case res of
             Inl e \<Rightarrow> raise e
           | Inr (columns, rows) \<Rightarrow> ret (map (\<lambda>r. map_of (rev (zip columns r))) rows)))"

definition get_scheduler_layout :: "conn \<Rightarrow> row list run" where
  "get_scheduler_layout c = query_dict c (scheduler_query c)"

definition get_memory_nodes :: "conn \<Rightarrow> row list run" where
  "get_memory_nodes c = query_dict c (memory_nodes_query c)"

subsection \<open>validate_numa_layout\<close>

text \<open>
  The loop only assigns \<open>cpu\<close> and \<open>is_online\<close>; the state is the pair of the two
  locals, \<open>None\<close> while they are unassigned.
\<close>

fun numa_loop :: "row list \<Rightarrow> (val \<times> val) option \<Rightarrow> exn + (val \<times> val) option" where
  "numa_loop [] locals = Inr locals"
| "numa_loop (row # rows) locals =
     (case getitem row ''cpu_id'' of
        Inl e \<Rightarrow> Inl e
      | Inr cpu \<Rightarrow>
          (case getitem row ''is_online'' of
             Inl e \<Rightarrow> Inl e
           | Inr is_online \<Rightarrow> numa_loop rows (Some (cpu, is_online))))"

text \<open>
  The code after the fetch. The test of \<open>is_online\<close> stands after the loop, and
  \<open>node_cpu_map\<close> is the empty dictionary it was initialised with.
\<close>

definition numa_layout_checks :: "row list \<Rightarrow> unit run" where
  "numa_layout_checks schedulers =
     bind_run (lift (numa_loop schedulers None)) (\<lambda>locals.
       case locals of
         None \<Rightarrow> raise (NameError ''is_online'')
       | Some (cpu, is_online) \<Rightarrow>
           (let node_cpu_map = ([] :: (val \<times> val) list);
                offline_schedulers = (if is_online = IntV 0 then [cpu] else []);
                cpu_counts = set_of (map snd node_cpu_map)
            in steps [
                 if 1 < length cpu_counts then
                   steps (out (mark_warn @ ascii '' NUMA nodes have unbalanced CPU counts:'')
                          # map (\<lambda>(node, count). out (ascii '' - Node '' @ py_str node @ ascii '': ''
                                                        @ py_str count @ ascii '' schedulers'')) node_cpu_map)
                 else out (mark_ok @ ascii '' NUMA CPU distribution appears balanced.''),
                 if offline_schedulers \<noteq> [] then
                   out (mark_warn @ ascii '' Offline schedulers detected: '' @ repr_list offline_schedulers)
                 else out (mark_ok @ ascii '' All schedulers are online.'')]))"

definition validate_numa_layout :: "conn \<Rightarrow> unit run" where
  "validate_numa_layout c = bind_run (get_scheduler_layout c) numa_layout_checks"

subsection \<open>validate_memory_alignment\<close>

fun getitems :: "string \<Rightarrow> row list \<Rightarrow> exn + val list" where
  "getitems k [] = Inr []"
| "getitems k (r # rs) =
     (case getitem r k of
        Inl e \<Rightarrow> Inl e
      | Inr v \<Rightarrow> (case getitems k rs of Inl e \<Rightarrow> Inl e | Inr vs \<Rightarrow> Inr (v # vs)))"

text \<open>
  The first statement of the loop body: \<open>if 'parent_node_id' in row: ...\<close>. It gives
  the locals \<open>scheduler_node_ids\<close> and \<open>memory_node_ids\<close> (\<open>None\<close> while unassigned).
\<close>

definition alignment_collect ::
  "row \<Rightarrow> row list \<Rightarrow> val list \<times> val list option \<Rightarrow> (val list \<times> val list option) run" where
  "alignment_collect row memory_nodes locals =
     (case locals of (scheduler_node_ids, memory_node_ids) \<Rightarrow>
        if has_key row ''parent_node_id'' then
          bind_run (lift (getitem row ''parent_node_id'')) (\<lambda>v.
          bind_run (lift (getitems ''memory_node_id'' memory_nodes)) (\<lambda>ms.
            ret (set_add v scheduler_node_ids, Some (set_of ms))))
        else ret (scheduler_node_ids, memory_node_ids))"

text \<open>
  The code after the loop. Each \<open>for\<close> has an \<open>else\<close> clause, which runs whenever the
  loop ends without \<open>break\<close>: always.
\<close>

definition alignment_report :: "val list \<Rightarrow> val list option \<Rightarrow> unit run" where
  "alignment_report scheduler_node_ids memory_node_ids =
     (case memory_node_ids of
        None \<Rightarrow> raise (NameError ''memory_node_ids'')
      | Some mids \<Rightarrow>
          (let nodes_missing_memory = set_minus scheduler_node_ids mids;
               memory_without_cpus = set_minus mids scheduler_node_ids
           in steps [
                if nodes_missing_memory \<noteq> [] then
                  out (mark_warn @ ascii '' NUMA nodes with schedulers but no memory assigned:'')
                else ret (),
                bind_run (lift (py_sorted nodes_missing_memory)) (\<lambda>nodes.
                  steps (map (\<lambda>node. out (ascii '' - Node '' @ py_str node)) nodes)),
                out (mark_ok @ ascii '' All scheduler nodes have memory assigned.''),
                if memory_without_cpus \<noteq> [] then
                  out (mark_warn @ ascii '' Memory nodes present without schedulers:'')
                else ret (),
                bind_run (lift (py_sorted memory_without_cpus)) (\<lambda>nodes.
                  steps (map (\<lambda>node. out (ascii '' - Node '' @ py_str node)) nodes)),
                out (mark_ok @ ascii '' All memory nodes align with scheduler nodes.'')]))"

text \<open>
  The code after the two fetches. The \<open>return\<close> is the last statement of the loop body,
  so the first record ends the function and the records after it are never read.
\<close>

definition memory_alignment_checks :: "row list \<Rightarrow> row list \<Rightarrow> unit run" where
  "memory_alignment_checks schedulers memory_nodes =
     (case schedulers of
        [] \<Rightarrow> alignment_report [] None
      | row # rest \<Rightarrow>
          bind_run (alignment_collect row memory_nodes ([], None)) (\<lambda>locals.
            case locals of (scheduler_node_ids, memory_node_ids) \<Rightarrow>
              if scheduler_node_ids = [] then
                out (mark_warn @ ascii '' NUMA layout cannot be fully validated (parent_node_id missing).'')
              else ret ()))"

definition validate_memory_alignment :: "conn \<Rightarrow> unit run" where
  "validate_memory_alignment c =
     bind_run (get_scheduler_layout c) (\<lambda>schedulers.
     bind_run (get_memory_nodes c) (\<lambda>memory_nodes.
       memory_alignment_checks schedulers memory_nodes))"

subsection \<open>recommend_maxdop\<close>

text \<open>
  \<open>EXEC sp_configure '<name>'\<close>, \<open>row = cursor.fetchone()\<close>, \<open>row[1] if row else None\<close>.
  A row is a sequence: it counts as false when it is \<open>None\<close> and when it has no column.
\<close>

definition config_value :: "conn \<Rightarrow> string \<Rightarrow> exn + val" where
  "config_value c name =
     (case sp_configure c name of
        Inl e \<Rightarrow> Inl e
      | Inr None \<Rightarrow> Inr NoneV
      | Inr (Some r) \<Rightarrow>
          if r = [] then Inr NoneV
          else if 1 < length r then Inr (r ! 1)
          else Inl IndexError)"

text \<open>The \<open>try\<close> block of \<open>recommend_maxdop\<close> with its handler.\<close>

definition current_maxdop :: "conn \<Rightarrow> val run" where
  "current_maxdop c =
     try_except
       (lift (case cursor_fault c of
                Some e \<Rightarrow> Inl e
              | None \<Rightarrow>
                  (case advanced_options c of
                     Some e \<Rightarrow> Inl e
                   | None \<Rightarrow> config_value c ''max degree of parallelism'')))
       (\<lambda>e. seq_run (out (mark_err @ ascii '' Unable to retrieve current maxDOP.'')) (ret NoneV))"

text \<open>\<open>set(row['parent_node_id'] for row in schedulers if 'parent_node_id' in row)\<close>\<close>

definition numa_nodes :: "row list \<Rightarrow> val list" where
  "numa_nodes schedulers =
     set_of (map (\<lambda>row. the (row ''parent_node_id'')) (filter (\<lambda>row. has_key row ''parent_node_id'') schedulers))"

text \<open>The three lines every run of the recommendation ends with.\<close>

definition line_current :: "val \<Rightarrow> pystr" where
  "line_current current_value = mark_brain @ ascii '' Current maxDOP: '' @ py_str current_value"

definition line_recommended :: "int \<Rightarrow> pystr" where
  "line_recommended recommended = mark_ok @ ascii '' Recommended maxDOP: '' @ str_int recommended"

definition line_reason :: "pystr \<Rightarrow> pystr" where
  "line_reason reason = mark_pin @ ascii '' Reason: '' @ reason"

definition line_fallback :: pystr where
  "line_fallback = mark_warn @ ascii '' Falling back to 1 NUMA node (parent_node_id unavailable)''"

text \<open>The code after the fetch of the scheduler records.\<close>

definition maxdop_recommendation :: "val \<Rightarrow> row list \<Rightarrow> unit run" where
  "maxdop_recommendation current_value schedulers =
     bind_run
       (if schedulers \<noteq> [] \<and> has_key (hd schedulers) ''parent_node_id'' then
          ret (int (length (numa_nodes schedulers)))
        else seq_run (out line_fallback) (ret 1))
       (\<lambda>node_count.
          case (if node_count = 1 then (8, ascii ''Single NUMA node - general best practice'')
                else (node_count * 2,
                      str_int node_count @ ascii '' NUMA nodes detected - scaling maxDOP accordingly''))
          of (recommended, reason) \<Rightarrow>
            steps [out (line_current current_value),
                   out (line_recommended recommended),
                   out (line_reason reason)])"

definition recommend_maxdop :: "conn \<Rightarrow> unit run" where
  "recommend_maxdop c =
     bind_run (current_maxdop c) (\<lambda>current_value.
     bind_run (get_scheduler_layout c) (\<lambda>schedulers.
       maxdop_recommendation current_value schedulers))"

subsection \<open>get_memory_config and validate_memory_config\<close>

text \<open>
  \<open>memory_config\<close> is filled key by key, each key once: it is the list of its items in
  the order they were stored. The handler of \<open>get_memory_config\<close> returns the dictionary
  as far as it was filled.
\<close>

type_synonym dict = "(string \<times> val) list"

definition memory_config_failed :: "dict \<Rightarrow> dict run" where
  "memory_config_failed memory_config =
     seq_run (out (mark_err @ ascii '' Unable to retrieve memory configuration.'')) (ret memory_config)"

definition get_memory_config :: "conn \<Rightarrow> dict run" where
  "get_memory_config c =
     (case cursor_fault c of
        Some e \<Rightarrow> memory_config_failed []
      | None \<Rightarrow>
     (case advanced_options c of
        Some e \<Rightarrow> memory_config_failed []
      | None \<Rightarrow>
     (case config_value c ''min server memory (MB)'' of
        Inl e \<Rightarrow> memory_config_failed []
      | Inr min_v \<Rightarrow>
     (case config_value c ''max server memory (MB)'' of
        Inl e \<Rightarrow> memory_config_failed [(''min_server_memory_mb'', min_v)]
      | Inr max_v \<Rightarrow>
     (case sys_memory_query c of
        Inl e \<Rightarrow> memory_config_failed [(''min_server_memory_mb'', min_v), (''max_server_memory_mb'', max_v)]
      | Inr (columns, []) \<Rightarrow> ret [(''min_server_memory_mb'', min_v), (''max_server_memory_mb'', max_v)]
      | Inr (columns, r # rs) \<Rightarrow>
     (if r = [] then ret [(''min_server_memory_mb'', min_v), (''max_server_memory_mb'', max_v)] else
     (case py_int_div_1024 (r ! 0) of
        Inl e \<Rightarrow> memory_config_failed [(''min_server_memory_mb'', min_v), (''max_server_memory_mb'', max_v)]
      | Inr total_mb \<Rightarrow>
     (case py_int_div_1024 (r ! 1) of
        Inl e \<Rightarrow> memory_config_failed [(''min_server_memory_mb'', min_v), (''max_server_memory_mb'', max_v),
                                        (''total_physical_memory_mb'', total_mb)]
      | Inr available_mb \<Rightarrow>
          ret [(''min_server_memory_mb'', min_v), (''max_server_memory_mb'', max_v),
               (''total_physical_memory_mb'', total_mb), (''available_physical_memory_mb'', available_mb)]))))))))"

text \<open>The code of \<open>validate_memory_config\<close> after the fetch.\<close>

definition memory_config_checks :: "dict \<Rightarrow> unit run" where
  "memory_config_checks mem =
     (if mem = [] then ret ()
      else steps [
        out ([10] @ mark_glass @ ascii '' SQL Server Memory Configuration:''),
        bind_run (lift (getitem (map_of mem) ''total_physical_memory_mb'')) (\<lambda>v.
          out (ascii '' - Total Physical RAM: '' @ py_str v @ ascii '' MB'')),
        bind_run (lift (getitem (map_of mem) ''available_physical_memory_mb'')) (\<lambda>v.
          out (ascii '' - Available RAM: '' @ py_str v @ ascii '' MB'')),
        bind_run (lift (getitem (map_of mem) ''min_server_memory_mb'')) (\<lambda>v.
          out (ascii '' - SQL Min Memory: '' @ py_str v @ ascii '' MB'')),
        bind_run (lift (getitem (map_of mem) ''max_server_memory_mb'')) (\<lambda>v.
          out (ascii '' - SQL Max Memory: '' @ py_str v @ ascii '' MB'')),
        bind_run (lift (getitem (map_of mem) ''total_physical_memory_mb'')) (\<lambda>total_mem.
        bind_run (lift (getitem (map_of mem) ''min_server_memory_mb'')) (\<lambda>min_mem.
        bind_run (lift (getitem (map_of mem) ''max_server_memory_mb'')) (\<lambda>max_mem.
          steps [
            bind_run (lift (py_less total_mem max_mem)) (\<lambda>exceeds.
              if exceeds then out (mark_warn @ ascii '' SQL Max Memory exceeds physical RAM. Risk of OS starvation.'')
              else out (mark_ok @ ascii '' SQL Max Memory fits within physical RAM.'')),
            bind_run (lift (py_less_quarter min_mem max_mem)) (\<lambda>low.
              if low then out (mark_warn @ ascii '' SQL Min Memory is set very low compared to Max. Could delay memory ramp-up.'')
              else out (mark_ok @ ascii '' SQL Min/Max memory ratio looks reasonable.''))])))])"

definition validate_memory_config :: "conn \<Rightarrow> unit run" where
  "validate_memory_config c = bind_run (get_memory_config c) memory_config_checks"

subsection \<open>check_affinity_config\<close>

text \<open>\<open>[row for row in rows if row[k] == v]\<close>\<close>

fun rows_where :: "string \<Rightarrow> val \<Rightarrow> row list \<Rightarrow> exn + row list" where
  "rows_where k v [] = Inr []"
| "rows_where k v (r # rs) =
     (case getitem r k of
        Inl e \<Rightarrow> Inl e
      | Inr x \<Rightarrow>
          (case rows_where k v rs of
             Inl e \<Rightarrow> Inl e
           | Inr ys \<Rightarrow> Inr (if x = v then r # ys else ys)))"

definition check_affinity_config :: "conn \<Rightarrow> unit run" where
  "check_affinity_config c =
     try_except
       (bind_run (get_scheduler_layout c) (\<lambda>schedulers.
        bind_run (lift (rows_where ''status'' (StrV (ascii ''VISIBLE ONLINE'')) schedulers)) (\<lambda>total_visible.
        bind_run (lift (rows_where ''is_online'' (IntV 1) schedulers)) (\<lambda>all_online.
        bind_run (lift (getitems ''cpu_id'' total_visible)) (\<lambda>visible.
        bind_run (lift (getitems ''cpu_id'' all_online)) (\<lambda>online.
          case (set_of visible, set_of online) of (total_visible_cpu_ids, total_online_cpu_ids) \<Rightarrow>
            if set total_visible_cpu_ids \<noteq> set total_online_cpu_ids then
              steps [
                out (mark_warn @ ascii '' Affinity mask is likely applied. Some CPUs are online but not visible to SQL Server:''),
                bind_run (lift (py_sorted (set_minus total_online_cpu_ids total_visible_cpu_ids))) (\<lambda>diff.
                  out (ascii ''   Missing CPUs: '' @ repr_list diff))]
            else out (mark_ok @ ascii '' No CPU affinity mask detected. SQL sees all online CPUs.'')))))))
       (\<lambda>e. out (mark_err @ ascii '' Error checking affinity config.''))"

subsection \<open>get_system_specs\<close>

definition get_system_specs :: "conn \<Rightarrow> unit run" where
  "get_system_specs c =
     try_except
       (bind_run (query_dict c (sys_info_query c)) (\<lambda>data.
          case data of
            [] \<Rightarrow> out (mark_err @ ascii '' Could not retrieve system specs.'')
          | row # rest \<Rightarrow>
              steps [
                out ([10] @ mark_desktop @ ascii '' Server CPU & Memory Specs:''),
                bind_run (lift (getitem row ''cpu_count'')) (\<lambda>v.
                  out (ascii '' - Logical CPUs: '' @ py_str v)),
                bind_run (lift (getitem row ''hyperthread_ratio'')) (\<lambda>v.
                  out (ascii '' - Hyperthread Ratio: '' @ py_str v)),
                bind_run (lift (getitem row ''physical_memory_mb'')) (\<lambda>v.
                  out (ascii '' - Physical Memory: '' @ py_str v @ ascii '' MB'')),
                bind_run (lift (getitem row ''sqlserver_start_time'')) (\<lambda>v.
                  out (ascii '' - SQL Server Start Time: '' @ py_str v)),
                bind_run (lift (getitem row ''virtual_machine_type_desc'')) (\<lambda>v.
                  out (ascii '' - Virtual Machine Type: '' @ py_str v))]))
       (\<lambda>e. out (mark_err @ ascii '' Error retrieving system hardware configuration.''))"

subsection \<open>check_socket_layout\<close>

text \<open>
  \<open>re.findall\<close> of a literal followed by one group, \<open>(\S+)\<close> or \<open>(\d+)\<close>: scanning
  from the left, a match is the literal and the longest run of the class after it (at
  least one character); the scan goes on behind the match. The first argument counts the
  characters of the last match that are still to be skipped. Whitespace is what
  \<open>str.isspace\<close> accepts. A digit for \<open>\d\<close> and for \<open>int\<close> is a decimal digit of
  Unicode (category Nd, here of Unicode 14.0): the digits come in runs of ten, zero to
  nine, and \<open>decimal_starts\<close> lists the zero of each run.
\<close>

definition is_space :: "nat \<Rightarrow> bool" where
  "is_space c = (c \<in> set [9, 10, 11, 12, 13, 28, 29, 30, 31, 32, 133, 160, 5760, 8192, 8193, 8194,
                           8195, 8196, 8197, 8198, 8199, 8200, 8201, 8202, 8232, 8233, 8239, 8287, 12288])"

definition decimal_starts :: "nat list" where
  "decimal_starts =
     [48, 1632, 1776, 1984, 2406, 2534, 2662, 2790, 2918, 3046, 3174, 3302, 3430, 3558, 3664,
      3792, 3872, 4160, 4240, 6112, 6160, 6470, 6608, 6784, 6800, 6992, 7088, 7232, 7248, 42528,
      43216, 43264, 43472, 43504, 43600, 44016, 65296, 66720, 68912, 69734, 69872, 69942, 70096,
      70384, 70736, 70864, 71248, 71360, 71472, 71904, 72016, 72784, 73040, 73120, 92768, 92864,
      93008, 120782, 120792, 120802, 120812, 120822, 123200, 123632, 125264, 130032]"

definition digit_value :: "nat \<Rightarrow> nat option" where
  "digit_value c = map_option (\<lambda>z. c - z) (find (\<lambda>z. z \<le> c \<and> c < z + 10) decimal_starts)"

definition is_digit :: "nat \<Rightarrow> bool" where
  "is_digit c = (digit_value c \<noteq> None)"

fun findall_skip :: "nat \<Rightarrow> pystr \<Rightarrow> (nat \<Rightarrow> bool) \<Rightarrow> pystr \<Rightarrow> pystr list" where
  "findall_skip k lit cls [] = []"
| "findall_skip (Suc k) lit cls (c # cs) = findall_skip k lit cls cs"
| "findall_skip 0 lit cls (c # cs) =
     (if startswith (c # cs) lit \<and> takeWhile cls (drop (length lit) (c # cs)) \<noteq> [] then
        takeWhile cls (drop (length lit) (c # cs))
        # findall_skip (length lit + length (takeWhile cls (drop (length lit) (c # cs))) - 1) lit cls cs
      else findall_skip 0 lit cls cs)"

definition findall_group :: "pystr \<Rightarrow> (nat \<Rightarrow> bool) \<Rightarrow> pystr \<Rightarrow> pystr list" where
  "findall_group lit cls s = findall_skip 0 lit cls s"

text \<open>
  \<open>int(s)\<close> of a run of digits. (An interpreter that limits the number of digits
  \<open>int\<close> accepts raises on a longer run; the limit is not modelled.)
\<close>

definition int_of_digits :: "pystr \<Rightarrow> int" where
  "int_of_digits s = foldl (\<lambda>n c. 10 * n + int (the (digit_value c))) 0 s"

definition check_socket_layout :: "host \<Rightarrow> unit run" where
  "check_socket_layout h =
     try_except
       (steps [
          out ([10] @ mark_puzzle @ ascii '' CPU Socket Layout (Host OS View):''),
          bind_run (lift (wmic_cpu h)) (\<lambda>output.
            case (length (remdups (findall_group (ascii ''SocketDesignation='') (\<lambda>c. \<not> is_space c) output)),
                  sum_list (map int_of_digits (findall_group (ascii ''NumberOfCores='') is_digit output)),
                  sum_list (map int_of_digits (findall_group (ascii ''NumberOfLogicalProcessors='') is_digit output)))
            of (socket_count, total_cores, total_logical) \<Rightarrow>
              steps [
                out (ascii '' - Sockets: '' @ str_int (int socket_count)),
                out (ascii '' - Physical Cores: '' @ str_int total_cores),
                out (ascii '' - Logical Processors: '' @ str_int total_logical),
                if 2 < socket_count then
                  steps [
                    out (mark_warn @ ascii '' Detected more than 2 sockets.''),
                    out (mark_err @ ascii '' SQL Server Standard will only use 2 sockets regardless of core count.''),
                    out (mark_pin @ ascii '' Recommendation: Reconfigure VM to use fewer sockets with more cores per socket (e.g., 1 socket ''
                         @ [0xD7] @ ascii '' 8 cores).'')]
                else out (mark_ok @ ascii '' Socket count is within SQL Server Standard Edition limits.'')])])
       (\<lambda>e. out (mark_err @ ascii '' Error retrieving socket layout from OS.''))"

subsection \<open>detect_virtual_environment\<close>

definition detect_virtual_environment :: "host \<Rightarrow> pystr run" where
  "detect_virtual_environment h =
     try_except
       (bind_run (lift (systeminfo h)) (\<lambda>output.
          case (if py_in (ascii ''VMware'') output then ascii ''VMware''
                else if py_in (ascii ''Hyper-V'') output \<or> py_in (ascii ''Virtual Machine'') output
                  then ascii ''Hyper-V''
                else if py_in (ascii ''KVM'') output \<or> py_in (ascii ''QEMU'') output
                  then ascii ''KVM/QEMU''
                else if py_in (ascii ''Microsoft Corporation Virtual'') output
                  then ascii ''Azure (Hyper-V core)''
                else ascii ''Bare Metal'')
          of detected \<Rightarrow>
            seq_run
              (steps [
                 out ([10] @ mark_compass @ ascii '' Host Environment: '' @ detected),
                 if detected \<noteq> ascii ''Bare Metal'' then
                   steps [
                     out (mark_warn @ ascii '' Detected virtualized SQL Server environment.''),
                     out (mark_pin @ ascii '' Ensure vNUMA is exposed and balanced properly in the hypervisor.''),
                     out (mark_pin @ ascii '' Misaligned virtual sockets/cores can cause NUMA fragmentation.'')]
                 else ret ()])
              (ret detected)))
       (\<lambda>e. seq_run (out (mark_err @ ascii '' Error detecting virtual platform.'')) (ret (ascii ''Unknown'')))"

subsection \<open>check_virtual_hardware\<close>

text \<open>\<open>str.upper()\<close>, for the ASCII letters only.\<close>

definition str_upper :: "pystr \<Rightarrow> pystr" where
  "str_upper s = map (\<lambda>c. if 97 \<le> c \<and> c \<le> 122 then c - 32 else c) s"

definition check_virtual_hardware :: "host \<Rightarrow> unit run" where
  "check_virtual_hardware h =
     seq_run (out ([10] @ mark_minidisc @ ascii '' VM Hardware Configuration Check:''))
       (try_except
          (bind_run (lift (wmic_diskdrive h)) (\<lambda>disk_output.
             steps [
               out (mark_glass @ ascii '' Disk Controllers:''),
               if py_in (ascii ''SCSI'') disk_output then
                 out (mark_ok @ ascii '' Disks are using SCSI interface.'')
               else steps [out (mark_warn @ ascii '' Disks may not be using SCSI interface:''), out disk_output],
               bind_run (lift (wmic_nic h)) (\<lambda>nic_output.
                 steps [
                   out ([10] @ mark_glass @ ascii '' Network Adapters:''),
                   if py_in (ascii ''VMXNET3'') (str_upper nic_output) then
                     out (mark_ok @ ascii '' VMXNET3 network adapter detected.'')
                   else steps [out (mark_warn @ ascii '' VMXNET3 not detected. Current adapters:''), out nic_output]])]))
          (\<lambda>e. out (mark_err @ ascii '' Error retrieving virtual hardware info.'')))"

subsection \<open>analyze_sql_workload\<close>

text \<open>The rows of a result set with their columns by name, as the cursor's rows give them.\<close>

definition named_rows :: "exn + result_set \<Rightarrow> exn + row list" where
  "named_rows res =
     (case res of
        Inl e \<Rightarrow> Inl e
      | Inr (columns, rows) \<Rightarrow> Inr (map (\<lambda>r. map_of (rev (zip columns r))) rows))"

text \<open>\<open>row.sql_text[:150]\<close>\<close>

fun first_150 :: "val \<Rightarrow> exn + pystr" where
  "first_150 (StrV s) = Inr (take 150 s)"
| "first_150 _ = Inl TypeError"

definition analyze_sql_workload :: "conn \<Rightarrow> nat \<Rightarrow> unit run" where
  "analyze_sql_workload c top_n =
     try_except
       (steps [
          lift (case cursor_fault c of Some e \<Rightarrow> Inl e | None \<Rightarrow> Inr ()),
          out ([10] @ mark_glass @ ascii '' Active SQL Requests (top '' @ str_int (int top_n) @ ascii ''):''),
          bind_run (lift (named_rows (requests_query c))) (\<lambda>fetched.
            case take top_n fetched of
              [] \<Rightarrow> out (mark_ok @ ascii '' No active long-running queries.'')
            | r # rs \<Rightarrow>
                steps (map (\<lambda>row.
                  steps [
                    bind_run (lift (getitem row ''session_id'')) (\<lambda>v.
                      out ([10] @ mark_thread @ ascii '' Session '' @ py_str v)),
                    bind_run (lift (getitem row ''status'')) (\<lambda>v. out (ascii '' - Status: '' @ py_str v)),
                    bind_run (lift (getitem row ''command'')) (\<lambda>v. out (ascii '' - Command: '' @ py_str v)),
                    bind_run (lift (getitem row ''cpu_time'')) (\<lambda>v.
                      out (ascii '' - CPU Time: '' @ py_str v @ ascii '' ms'')),
                    bind_run (lift (getitem row ''total_elapsed_time'')) (\<lambda>v.
                      out (ascii '' - Elapsed Time: '' @ py_str v @ ascii '' ms'')),
                    bind_run (lift (getitem row ''sql_text'')) (\<lambda>v.
                    bind_run (lift (first_150 v)) (\<lambda>s.
                      out (ascii '' - SQL: '' @ s @ ascii ''...'')))]) (r # rs))),
          out ([10] @ mark_disk @ ascii '' Memory Grants (if any):''),
          bind_run (lift (named_rows (memory_grants_query c))) (\<lambda>mem_rows.
            case mem_rows of
              [] \<Rightarrow> out (mark_ok @ ascii '' No memory grant pressure detected.'')
            | r # rs \<Rightarrow>
                steps (map (\<lambda>row.
                  bind_run (lift (getitem row ''session_id'')) (\<lambda>sid.
                  bind_run (lift (getitem row ''requested_memory_kb'')) (\<lambda>req.
                    out (ascii '' - Session '' @ py_str sid @ ascii '' waiting for memory: ''
                         @ py_str req @ ascii '' KB requested'')))) (r # rs)))])
       (\<lambda>e. out (mark_err @ ascii '' Error analyzing SQL workload.''))"

subsection \<open>run_all_diagnostics\<close>

definition run_all_diagnostics :: "conn \<Rightarrow> host \<Rightarrow> unit run" where
  "run_all_diagnostics c h =
     steps [
       out ([10] @ mark_wrench @ ascii '' Running Full SQL Server + VM Diagnostics'' @ [10] @ replicate 50 45),
       get_system_specs c,
       validate_numa_layout c,
       validate_memory_alignment c,
       recommend_maxdop c,
       validate_memory_config c,
       check_affinity_config c,
       get_system_specs c,
       check_socket_layout h,
       bind_run (detect_virtual_environment h) (\<lambda>detected. ret ()),
       check_virtual_hardware h,
       analyze_sql_workload c 5,
       out ([10] @ mark_ok @ ascii '' Diagnostics complete.'')]"

section \<open>Example servers\<close>

text \<open>
  Rows of \<open>sys.dm_os_schedulers\<close> (with the \<open>parent_node_id\<close> the view has) and of
  \<open>sys.dm_os_memory_nodes\<close>, and servers built from them, for the concrete runs below.
\<close>

definition scheduler_row :: "int \<Rightarrow> int \<Rightarrow> int \<Rightarrow> int \<Rightarrow> row" where
  "scheduler_row sid cpu online node =
     [''scheduler_id'' \<mapsto> IntV sid, ''cpu_id'' \<mapsto> IntV cpu, ''is_online'' \<mapsto> IntV online,
      ''status'' \<mapsto> StrV (if online = 1 then ascii ''VISIBLE ONLINE'' else ascii ''VISIBLE OFFLINE''),
      ''parent_node_id'' \<mapsto> IntV node]"

definition memory_node_row :: "int \<Rightarrow> row" where
  "memory_node_row node =
     [''memory_node_id'' \<mapsto> IntV node, ''virtual_address_space_reserved_kb'' \<mapsto> IntV 8388608,
      ''virtual_address_space_committed_kb'' \<mapsto> IntV 4194304, ''locked_page_allocations_kb'' \<mapsto> IntV 0]"

definition sp_configure_rows :: "string \<Rightarrow> exn + val list option" where
  "sp_configure_rows name =
     Inr (Some (if name = ''min server memory (MB)'' then
                  [StrV (ascii name), IntV 0, IntV 2147483647, IntV 1000, IntV 1000]
                else if name = ''max server memory (MB)'' then
                  [StrV (ascii name), IntV 128, IntV 2147483647, IntV 70000, IntV 70000]
                else [StrV (ascii name), IntV 0, IntV 32767, IntV 0, IntV 0]))"

text \<open>
  A server with two NUMA nodes: CPUs 0, 1 and 2 on node 0, CPU 3 on node 1, and CPU 0
  offline.
\<close>

definition two_node_server :: conn where
  "two_node_server =
     \<lparr>cursor_fault = None, advanced_options = None, sp_configure = sp_configure_rows,
      dm_os_schedulers = Inr [scheduler_row 0 0 0 0, scheduler_row 1 1 1 0,
                              scheduler_row 2 2 1 0, scheduler_row 3 3 1 1],
      dm_os_memory_nodes = Inr [memory_node_row 0, memory_node_row 1],
      dm_os_sys_info = Inr [[''cpu_count'' \<mapsto> IntV 4, ''hyperthread_ratio'' \<mapsto> IntV 1,
                             ''physical_memory_kb'' \<mapsto> IntV 67108864,
                             ''sqlserver_start_time'' \<mapsto> StrV (ascii ''2023-10-01 08:00:00''),
                             ''virtual_machine_type_desc'' \<mapsto> StrV (ascii ''NONE'')]],
      dm_os_sys_memory = Inr [[''total_physical_memory_kb'' \<mapsto> IntV 67108864,
                               ''available_physical_memory_kb'' \<mapsto> IntV 33554432]],
      dm_exec_requests = Inr [], dm_exec_query_memory_grants = Inr []\<rparr>"

text \<open>The same server when it has no scheduler row to show.\<close>

definition server_without_schedulers :: conn where
  "server_without_schedulers = two_node_server\<lparr>dm_os_schedulers := Inr []\<rparr>"

text \<open>The same server when reading \<open>sys.dm_os_schedulers\<close> is refused.\<close>

definition server_refusing_schedulers :: conn where
  "server_refusing_schedulers = two_node_server\<lparr>dm_os_schedulers := Inl DataSourceError\<rparr>"

text \<open>The same server when \<open>sys.dm_os_sys_memory\<close> gives no row, and when reading it is refused.\<close>

definition server_without_sys_memory :: conn where
  "server_without_sys_memory = two_node_server\<lparr>dm_os_sys_memory := Inr []\<rparr>"

definition server_refusing_sys_memory :: conn where
  "server_refusing_sys_memory = two_node_server\<lparr>dm_os_sys_memory := Inl DataSourceError\<rparr>"

definition quiet_host :: host where
  "quiet_host =
     \<lparr>systeminfo = Inr (ascii ''System Manufacturer: Dell Inc.''),
      wmic_cpu = Inr (ascii ''SocketDesignation=CPU0 NumberOfCores=4 NumberOfLogicalProcessors=4''),
      wmic_diskdrive = Inr (ascii ''InterfaceType=SCSI''),
      wmic_nic = Inr (ascii ''vmxnet3 Ethernet Adapter'')\<rparr>"

text \<open>
  Scheduler records as the checks could be handed them if the query selected
  \<open>parent_node_id\<close>: with the node, and without it.
\<close>

definition record_with_node :: "int \<Rightarrow> int \<Rightarrow> row" where
  "record_with_node cpu node =
     [''scheduler_id'' \<mapsto> IntV cpu, ''cpu_id'' \<mapsto> IntV cpu, ''is_online'' \<mapsto> IntV 1,
      ''status'' \<mapsto> StrV (ascii ''VISIBLE ONLINE''), ''parent_node_id'' \<mapsto> IntV node]"

definition record_without_node :: "int \<Rightarrow> row" where
  "record_without_node cpu =
     [''scheduler_id'' \<mapsto> IntV cpu, ''cpu_id'' \<mapsto> IntV cpu, ''is_online'' \<mapsto> IntV 1,
      ''status'' \<mapsto> StrV (ascii ''VISIBLE ONLINE'')]"

text \<open>The two-node server when \<open>sp_configure\<close> has no row for the minimum server memory.\<close>

definition server_without_min_memory :: conn where
  "server_without_min_memory =
     two_node_server\<lparr>sp_configure :=
       (\<lambda>name. if name = ''min server memory (MB)'' then Inr None else sp_configure_rows name)\<rparr>"

text \<open>
  The two-node server with the maximum degree of parallelism configured at 4: the row of
  \<open>sp_configure\<close> holds the name, the minimum, the maximum, the configured value and the
  running value.
\<close>

definition server_with_maxdop_4 :: conn where
  "server_with_maxdop_4 =
     two_node_server\<lparr>sp_configure :=
       (\<lambda>name. if name = ''max degree of parallelism''
               then Inr (Some [StrV (ascii name), IntV 0, IntV 32767, IntV 4, IntV 4])
               else sp_configure_rows name)\<rparr>"

section \<open>Properties of the report logger\<close>

lemma splitlines_from_newline:
  "splitlines_from cur (a @ 10 # b) = splitlines_from cur (a @ [10]) @ splitlines_from [] b"
proof (induction cur a rule: splitlines_from.induct)
  case (1 cur)
  show ?case by (simp add: is_linebreak_def)
next
  case (2 cur c cs)
  show ?case
  proof (cases "c = 13")
    case True
    show ?thesis
    proof (cases cs)
      case Nil
      with True show ?thesis by simp
    next
      case (Cons d ds)
      with True 2 show ?thesis by (cases "d = 10") simp_all
    qed
  next
    case False
    with 2 show ?thesis by (cases "is_linebreak c") simp_all
  qed
qed

lemma splitlines_from_plain:
  "list_all (\<lambda>c. \<not> is_linebreak c) m \<Longrightarrow> splitlines_from cur (m @ [10]) = [cur @ m]"
proof (induction m arbitrary: cur)
  case Nil
  show ?case by (simp add: is_linebreak_def)
next
  case (Cons c m)
  then have "c \<noteq> 13" by (auto simp: is_linebreak_def)
  with Cons show ?case by simp
qed

lemma buffer_write_all:
  "buffer (write_all msgs l) = buffer l @ concat (map (\<lambda>m. m @ [10]) msgs)"
  unfolding write_all_def
  by (induction msgs arbitrary: l) (simp_all add: ReportLogger_write_def)

lemma write_after_write_all:
  "ReportLogger_write m (write_all msgs l) = write_all (msgs @ [m]) l"
  by (simp add: write_all_def)

lemma splitlines_from_concat:
  "splitlines_from [] (concat (map (\<lambda>m. m @ [10]) msgs)) =
   concat (map (\<lambda>m. splitlines (m @ [10])) msgs)"
proof (induction msgs)
  case Nil
  show ?case by simp
next
  case (Cons m msgs)
  have "splitlines_from [] (m @ 10 # concat (map (\<lambda>m. m @ [10]) msgs)) =
        splitlines_from [] (m @ [10]) @ splitlines_from [] (concat (map (\<lambda>m. m @ [10]) msgs))"
    by (rule splitlines_from_newline)
  with Cons show ?case by (simp add: splitlines_def)
qed

lemma splitlines_logged:
  "splitlines (buffer (write_all msgs ReportLogger_init)) = concat (map (\<lambda>m. splitlines (m @ [10])) msgs)"
  by (simp add: buffer_write_all ReportLogger_init_def splitlines_def splitlines_from_concat)

lemma concat_plain_lines:
  "list_all (\<lambda>m. list_all (\<lambda>c. \<not> is_linebreak c) m) msgs \<Longrightarrow>
   concat (map (\<lambda>m. splitlines (m @ [10])) msgs) = msgs"
  by (induction msgs) (simp_all add: splitlines_def splitlines_from_plain)

lemma json_strings_map: "json_strings (map JString ls) = Some ls"
  by (induction ls) simp_all

lemma report_of_export_json:
  "report_of (fst (ReportLogger_export_json filename l)) = Some (splitlines (buffer l))"
  by (simp add: ReportLogger_export_json_def Let_def json_strings_map)

text \<open>
  Claim C7, as the code has it. The structured export holds the lines of the buffer, not
  the messages: \<open>write\<close> appends the message and a newline to one text, and
  \<open>export_json\<close> splits that text at every line boundary. So the document lists, for each
  recorded message in order, the lines that message splits into; it is the list of the
  recorded messages, identical in order and content, whenever no message contains a line
  boundary character.
\<close>

theorem structured_export_lines:
  "report_of (fst (ReportLogger_export_json filename (write_all msgs ReportLogger_init)))
     = Some (concat (map (\<lambda>m. splitlines (m @ [10])) msgs))
   \<and> (list_all (\<lambda>m. list_all (\<lambda>c. \<not> is_linebreak c) m) msgs \<longrightarrow>
      report_of (fst (ReportLogger_export_json filename (write_all msgs ReportLogger_init))) = Some msgs)"
  by (simp add: report_of_export_json splitlines_logged concat_plain_lines)

text \<open>Two messages of the program without a line boundary come back as they were recorded.\<close>

theorem structured_export_lines_witness:
  "list_all (\<lambda>m. list_all (\<lambda>c. \<not> is_linebreak c) m)
     [mark_ok @ ascii '' All schedulers are online.'', ascii '' - Sockets: 2'']
   \<and> report_of (fst (ReportLogger_export_json (ascii ''numa_diagnostics.json'')
        (write_all [mark_ok @ ascii '' All schedulers are online.'', ascii '' - Sockets: 2''] ReportLogger_init)))
     = Some [mark_ok @ ascii '' All schedulers are online.'', ascii '' - Sockets: 2'']"
proof -
  have h: "list_all (\<lambda>m. list_all (\<lambda>c. \<not> is_linebreak c) m)
     [mark_ok @ ascii '' All schedulers are online.'', ascii '' - Sockets: 2'']"
    by (simp add: mark_ok_def ascii_def is_linebreak_def)
  from h structured_export_lines
    [of "ascii ''numa_diagnostics.json''" "[mark_ok @ ascii '' All schedulers are online.'', ascii '' - Sockets: 2'']"]
  show ?thesis by blast
qed

text \<open>
  Claim C7 as stated fails on the last message of every full run, which starts with a
  newline: recorded as one message, it comes back as two lines, the first of them empty.
\<close>

theorem structured_export_counterexample:
  "report_of (fst (ReportLogger_export_json (ascii ''numa_diagnostics.json'')
      (write_all [[10] @ mark_ok @ ascii '' Diagnostics complete.''] ReportLogger_init)))
   = Some [[], mark_ok @ ascii '' Diagnostics complete.'']
   \<and> [[], mark_ok @ ascii '' Diagnostics complete.''] \<noteq> [[10] @ mark_ok @ ascii '' Diagnostics complete.'']"
  by (simp add: report_of_export_json buffer_write_all ReportLogger_init_def splitlines_def
        mark_ok_def ascii_def is_linebreak_def)

lemma summary_logged:
  "summary_successes (write_all msgs ReportLogger_init)
     = filter (\<lambda>line. py_in mark_ok line) (concat (map (\<lambda>m. splitlines (m @ [10])) msgs))"
  "summary_warnings (write_all msgs ReportLogger_init)
     = filter (\<lambda>line. py_in mark_warn line \<or> py_in mark_err line) (concat (map (\<lambda>m. splitlines (m @ [10])) msgs))"
  by (simp_all add: summary_successes_def summary_warnings_def splitlines_logged)

lemma splitlines_single: "list_all (\<lambda>c. \<not> is_linebreak c) m \<Longrightarrow> splitlines (m @ [10]) = [m]"
  by (simp add: splitlines_def splitlines_from_plain)

text \<open>
  Claim C8. \<open>print_summary\<close> leaves the buffer as it is, so a second run finds the same
  successes and warnings and prints the same summary again, and the text export after it
  is the text export before it. A line of the log counts as a success when it contains the
  success marker and as a warning when it contains the warning or the error marker, each
  test on its own: recording one more line adds it to either list, to both or to none.
  The issues printed are the first five warnings in log order.
\<close>

theorem summary_counts_by_marker:
  "buffer (ReportLogger_print_summary l) = buffer l
   \<and> summary_successes (ReportLogger_print_summary l) = summary_successes l
   \<and> summary_warnings (ReportLogger_print_summary l) = summary_warnings l
   \<and> console (ReportLogger_print_summary (ReportLogger_print_summary l))
       = console l @ summary_text l @ summary_text l
   \<and> fst (ReportLogger_export filename (ReportLogger_print_summary l)) = fst (ReportLogger_export filename l)
   \<and> summary_successes (write_all msgs ReportLogger_init)
       = filter (\<lambda>line. py_in mark_ok line) (concat (map (\<lambda>m. splitlines (m @ [10])) msgs))
   \<and> summary_warnings (write_all msgs ReportLogger_init)
       = filter (\<lambda>line. py_in mark_warn line \<or> py_in mark_err line)
           (concat (map (\<lambda>m. splitlines (m @ [10])) msgs))
   \<and> (list_all (\<lambda>c. \<not> is_linebreak c) m \<longrightarrow>
        summary_successes (ReportLogger_write m (write_all msgs ReportLogger_init))
          = summary_successes (write_all msgs ReportLogger_init) @ (if py_in mark_ok m then [m] else [])
      \<and> summary_warnings (ReportLogger_write m (write_all msgs ReportLogger_init))
          = summary_warnings (write_all msgs ReportLogger_init)
            @ (if py_in mark_warn m \<or> py_in mark_err m then [m] else []))
   \<and> summary_text l
       = [[10] @ mark_clipboard @ ascii '' Summary:'',
          ascii '' - '' @ mark_ok @ ascii '' Successes: '' @ str_int (int (length (summary_successes l))),
          ascii '' - '' @ mark_warn @ ascii '' Warnings: '' @ str_int (int (length (summary_warnings l)))]
         @ (if summary_warnings l = [] then []
            else ascii '' - Highlighted Issues:''
                 # map (\<lambda>line. ascii ''   '' @ line) (take 5 (summary_warnings l)))"
proof -
  have frame: "buffer (ReportLogger_print_summary l) = buffer l"
    by (simp add: ReportLogger_print_summary_def)
  have twice: "console (ReportLogger_print_summary (ReportLogger_print_summary l))
       = console l @ summary_text l @ summary_text l"
    by (simp add: ReportLogger_print_summary_def summary_text_def summary_warnings_def summary_successes_def)
  have appended: "list_all (\<lambda>c. \<not> is_linebreak c) m \<Longrightarrow>
        summary_successes (ReportLogger_write m (write_all msgs ReportLogger_init))
          = summary_successes (write_all msgs ReportLogger_init) @ (if py_in mark_ok m then [m] else [])
      \<and> summary_warnings (ReportLogger_write m (write_all msgs ReportLogger_init))
          = summary_warnings (write_all msgs ReportLogger_init)
            @ (if py_in mark_warn m \<or> py_in mark_err m then [m] else [])"
    by (simp add: write_after_write_all summary_logged splitlines_single)
  have printed: "summary_text l
       = [[10] @ mark_clipboard @ ascii '' Summary:'',
          ascii '' - '' @ mark_ok @ ascii '' Successes: '' @ str_int (int (length (summary_successes l))),
          ascii '' - '' @ mark_warn @ ascii '' Warnings: '' @ str_int (int (length (summary_warnings l)))]
         @ (if summary_warnings l = [] then []
            else ascii '' - Highlighted Issues:''
                 # map (\<lambda>line. ascii ''   '' @ line) (take 5 (summary_warnings l)))"
    by (simp add: summary_text_def Let_def)
  from frame twice appended printed show ?thesis
    by (simp add: summary_successes_def summary_warnings_def ReportLogger_export_def summary_logged [unfolded summary_successes_def summary_warnings_def])
qed

text \<open>A line with both the success and the error marker is counted on both sides.\<close>

theorem summary_counts_by_marker_witness:
  "list_all (\<lambda>c. \<not> is_linebreak c) (mark_ok @ ascii '' fixed, '' @ mark_err @ ascii '' failed'')
   \<and> summary_successes (ReportLogger_write (mark_ok @ ascii '' fixed, '' @ mark_err @ ascii '' failed'')
        (write_all [] ReportLogger_init)) = [mark_ok @ ascii '' fixed, '' @ mark_err @ ascii '' failed'']
   \<and> summary_warnings (ReportLogger_write (mark_ok @ ascii '' fixed, '' @ mark_err @ ascii '' failed'')
        (write_all [] ReportLogger_init)) = [mark_ok @ ascii '' fixed, '' @ mark_err @ ascii '' failed'']"
proof -
  have h: "list_all (\<lambda>c. \<not> is_linebreak c) (mark_ok @ ascii '' fixed, '' @ mark_err @ ascii '' failed'')"
    by (simp add: mark_ok_def mark_err_def ascii_def is_linebreak_def)
  have e: "summary_successes (write_all [] ReportLogger_init) = []"
          "summary_warnings (write_all [] ReportLogger_init) = []"
    by (simp_all add: summary_successes_def summary_warnings_def write_all_def ReportLogger_init_def splitlines_def)
  have ok: "py_in mark_ok (mark_ok @ ascii '' fixed, '' @ mark_err @ ascii '' failed'')"
    by (simp add: mark_ok_def mark_err_def ascii_def)
  have err: "py_in mark_err (mark_ok @ ascii '' fixed, '' @ mark_err @ ascii '' failed'')"
    by (simp add: mark_ok_def mark_err_def ascii_def)
  from h e ok err
    summary_counts_by_marker [of ReportLogger_init "[]" "[]" "mark_ok @ ascii '' fixed, '' @ mark_err @ ascii '' failed''"]
  show ?thesis by simp
qed

section \<open>Properties of the checks\<close>

subsection \<open>Running a block\<close>

lemma bind_run_Inl: "bind_run (ls, Inl e) f = (ls, Inl e)"
  by (simp add: bind_run_def)

lemma bind_run_Inr: "bind_run (ls, Inr x) f = (ls @ fst (f x), snd (f x))"
  by (simp add: bind_run_def split: prod.splits)

lemma seq_run_Inl: "seq_run (ls, Inl e) n = (ls, Inl e)"
  by (simp add: seq_run_def bind_run_Inl)

lemma seq_run_Inr: "seq_run (ls, Inr x) n = (ls @ fst n, snd n)"
  by (simp add: seq_run_def bind_run_Inr)

lemma steps_Nil: "steps [] = ([], Inr ())"
  by (simp add: steps_def ret_def)

lemma steps_Cons: "steps (m # ms) = seq_run m (steps ms)"
  by (simp add: steps_def)

lemma try_except_Inl: "try_except (ls, Inl e) h = (ls @ fst (h e), snd (h e))"
  by (simp add: try_except_def split: prod.splits)

lemma try_except_Inr: "try_except (ls, Inr x) h = (ls, Inr x)"
  by (simp add: try_except_def)

lemmas run_simps = bind_run_Inl bind_run_Inr seq_run_Inl seq_run_Inr steps_Nil steps_Cons
  try_except_Inl try_except_Inr ret_def out_def raise_def lift_def

text \<open>A \<open>try\<close> block whose handler only emits a line never lets an exception out.\<close>

lemma try_except_out_returns: "snd (try_except m (\<lambda>e. out msg)) = Inr ()"
proof (cases m)
  case (Pair ls r)
  then show ?thesis by (cases r) (simp_all add: run_simps)
qed

subsection \<open>What \<open>query_dict\<close> returns\<close>

lemma query_dict_lines: "fst (query_dict c res) = []"
  by (simp add: query_dict_def run_simps split: option.splits sum.splits prod.splits)

lemma dom_zipped_row:
  "length vs = length cols \<Longrightarrow> dom (map_of (rev (zip cols vs))) = set cols"
  by (simp add: dom_map_of_conv_image_fst flip: set_map)

lemma query_dict_select_keys:
  assumes "query_dict c (case tab of Inl e \<Rightarrow> Inl e | Inr t \<Rightarrow> select_columns cols (f t)) = (ls, Inr rows)"
    and "r \<in> set rows"
  shows "dom r = set cols"
proof -
  from assms obtain x where "r = map_of (rev (zip cols (map (\<lambda>c. the (x c)) cols)))"
    by (auto simp: query_dict_def run_simps select_columns_def
             split: option.splits sum.splits prod.splits if_splits)
  then show ?thesis by (simp add: dom_zipped_row)
qed

lemma scheduler_layout_keys:
  assumes "get_scheduler_layout c = (ls, Inr schedulers)" and "row \<in> set schedulers"
  shows "dom row = {''scheduler_id'', ''cpu_id'', ''is_online'', ''status''}"
proof -
  have "dom row = set [''scheduler_id'', ''cpu_id'', ''is_online'', ''status'']"
    using assms unfolding get_scheduler_layout_def scheduler_query_def
    by (rule query_dict_select_keys)
  then show ?thesis by simp
qed

lemma current_maxdop_returns:
  "\<exists>pre v. current_maxdop c = (pre, Inr v)
     \<and> (pre = [] \<or> pre = [mark_err @ ascii '' Unable to retrieve current maxDOP.''])"
proof (cases "case cursor_fault c of Some e \<Rightarrow> Inl e
              | None \<Rightarrow> (case advanced_options c of Some e \<Rightarrow> Inl e
                          | None \<Rightarrow> config_value c ''max degree of parallelism'')")
  case (Inl e)
  then show ?thesis by (simp add: current_maxdop_def run_simps)
next
  case (Inr v)
  then show ?thesis by (simp add: current_maxdop_def run_simps)
qed

subsection \<open>The checks on records without a node\<close>

lemma scheduler_layout_no_node:
  assumes "get_scheduler_layout c = (ls, Inr schedulers)" and "row \<in> set schedulers"
  shows "\<not> has_key row ''parent_node_id''"
proof -
  from assms have "dom row = {''scheduler_id'', ''cpu_id'', ''is_online'', ''status''}"
    by (rule scheduler_layout_keys)
  then have "''parent_node_id'' \<notin> dom row" by simp
  then show ?thesis by (simp add: has_key_def dom_def)
qed

lemma numa_nodes_without_key:
  "list_all (\<lambda>row. \<not> has_key row ''parent_node_id'') schedulers \<Longrightarrow> numa_nodes schedulers = []"
  by (induction schedulers) (simp_all add: numa_nodes_def set_of_def)

lemma alignment_collect_without_key:
  "\<not> has_key row ''parent_node_id'' \<Longrightarrow>
   alignment_collect row memory_nodes (ids, mids) = ([], Inr (ids, mids))"
  by (simp add: alignment_collect_def run_simps)

lemma memory_alignment_without_key:
  "\<not> has_key row ''parent_node_id'' \<Longrightarrow>
   memory_alignment_checks (row # rest) memory_nodes
     = ([mark_warn @ ascii '' NUMA layout cannot be fully validated (parent_node_id missing).''], Inr ())"
  by (simp add: memory_alignment_checks_def alignment_collect_without_key run_simps)

lemma memory_alignment_empty:
  "memory_alignment_checks [] memory_nodes = ([], Inl (NameError ''memory_node_ids''))"
  by (simp add: memory_alignment_checks_def alignment_report_def run_simps)

lemma maxdop_fallback:
  "schedulers = [] \<or> \<not> has_key (hd schedulers) ''parent_node_id'' \<Longrightarrow>
   maxdop_recommendation current_value schedulers
     = ([line_fallback, line_current current_value, line_recommended 8,
         line_reason (ascii ''Single NUMA node - general best practice'')], Inr ())"
  by (auto simp add: maxdop_recommendation_def run_simps)

lemma maxdop_single:
  "schedulers \<noteq> [] \<Longrightarrow> has_key (hd schedulers) ''parent_node_id'' \<Longrightarrow> length (numa_nodes schedulers) = 1 \<Longrightarrow>
   maxdop_recommendation current_value schedulers
     = ([line_current current_value, line_recommended 8,
         line_reason (ascii ''Single NUMA node - general best practice'')], Inr ())"
  by (simp add: maxdop_recommendation_def run_simps)

lemma maxdop_scaled:
  "schedulers \<noteq> [] \<Longrightarrow> has_key (hd schedulers) ''parent_node_id'' \<Longrightarrow> 1 < length (numa_nodes schedulers) \<Longrightarrow>
   maxdop_recommendation current_value schedulers
     = ([line_current current_value, line_recommended (int (length (numa_nodes schedulers)) * 2),
         line_reason (str_int (int (length (numa_nodes schedulers)))
                      @ ascii '' NUMA nodes detected - scaling maxDOP accordingly'')], Inr ())"
  by (simp add: maxdop_recommendation_def run_simps)

subsection \<open>Virtualization detection\<close>

text \<open>
  Claim C9. The host signature is classified by the first test that matches, in the order
  VMware, Hyper-V or Virtual Machine, KVM or QEMU, Microsoft Corporation Virtual; a text
  that matches none is Bare Metal, and then the check emits the one line that names it.
\<close>

theorem virtualization_first_match:
  "systeminfo h = Inr output \<Longrightarrow>
   (py_in (ascii ''VMware'') output \<longrightarrow> snd (detect_virtual_environment h) = Inr (ascii ''VMware''))
   \<and> (\<not> py_in (ascii ''VMware'') output
        \<and> (py_in (ascii ''Hyper-V'') output \<or> py_in (ascii ''Virtual Machine'') output)
      \<longrightarrow> snd (detect_virtual_environment h) = Inr (ascii ''Hyper-V''))
   \<and> (\<not> py_in (ascii ''VMware'') output
        \<and> \<not> py_in (ascii ''Hyper-V'') output \<and> \<not> py_in (ascii ''Virtual Machine'') output
        \<and> (py_in (ascii ''KVM'') output \<or> py_in (ascii ''QEMU'') output)
      \<longrightarrow> snd (detect_virtual_environment h) = Inr (ascii ''KVM/QEMU''))
   \<and> (\<not> py_in (ascii ''VMware'') output
        \<and> \<not> py_in (ascii ''Hyper-V'') output \<and> \<not> py_in (ascii ''Virtual Machine'') output
        \<and> \<not> py_in (ascii ''KVM'') output \<and> \<not> py_in (ascii ''QEMU'') output
        \<and> py_in (ascii ''Microsoft Corporation Virtual'') output
      \<longrightarrow> snd (detect_virtual_environment h) = Inr (ascii ''Azure (Hyper-V core)''))
   \<and> (\<not> py_in (ascii ''VMware'') output
        \<and> \<not> py_in (ascii ''Hyper-V'') output \<and> \<not> py_in (ascii ''Virtual Machine'') output
        \<and> \<not> py_in (ascii ''KVM'') output \<and> \<not> py_in (ascii ''QEMU'') output
        \<and> \<not> py_in (ascii ''Microsoft Corporation Virtual'') output
      \<longrightarrow> detect_virtual_environment h
            = ([[10] @ mark_compass @ ascii '' Host Environment: '' @ ascii ''Bare Metal''], Inr (ascii ''Bare Metal'')))"
  by (simp add: detect_virtual_environment_def try_except_def bind_run_def seq_run_def lift_def
        steps_def out_def ret_def ascii_def split: prod.splits sum.splits)

text \<open>A signature with both "VMware" and "Hyper-V" in it is VMware.\<close>

theorem virtualization_first_match_witness:
  "py_in (ascii ''VMware'') (ascii ''System Manufacturer: VMware, Inc. Hyper-V Requirements: A hypervisor has been detected.'')
   \<and> py_in (ascii ''Hyper-V'') (ascii ''System Manufacturer: VMware, Inc. Hyper-V Requirements: A hypervisor has been detected.'')
   \<and> snd (detect_virtual_environment
        \<lparr>systeminfo = Inr (ascii ''System Manufacturer: VMware, Inc. Hyper-V Requirements: A hypervisor has been detected.''),
         wmic_cpu = Inl DataSourceError, wmic_diskdrive = Inl DataSourceError, wmic_nic = Inl DataSourceError\<rparr>)
       = Inr (ascii ''VMware'')"
proof -
  have v: "py_in (ascii ''VMware'') (ascii ''System Manufacturer: VMware, Inc. Hyper-V Requirements: A hypervisor has been detected.'')"
    by (simp add: ascii_def)
  have w: "py_in (ascii ''Hyper-V'') (ascii ''System Manufacturer: VMware, Inc. Hyper-V Requirements: A hypervisor has been detected.'')"
    by (simp add: ascii_def)
  have s: "systeminfo \<lparr>systeminfo = Inr (ascii ''System Manufacturer: VMware, Inc. Hyper-V Requirements: A hypervisor has been detected.''),
         wmic_cpu = Inl DataSourceError, wmic_diskdrive = Inl DataSourceError, wmic_nic = Inl DataSourceError\<rparr>
       = Inr (ascii ''System Manufacturer: VMware, Inc. Hyper-V Requirements: A hypervisor has been detected.'')"
    by simp
  from v w virtualization_first_match [OF s] show ?thesis by blast
qed

subsection \<open>The claims about the checks\<close>

lemma server_without_schedulers_layout:
  "get_scheduler_layout server_without_schedulers = ([], Inr [])"
  by (simp add: get_scheduler_layout_def query_dict_def scheduler_query_def select_columns_def
      server_without_schedulers_def two_node_server_def run_simps)

lemma server_without_schedulers_nodes:
  "\<exists>memory_nodes. get_memory_nodes server_without_schedulers = ([], Inr memory_nodes)"
  by (simp add: get_memory_nodes_def query_dict_def memory_nodes_query_def select_columns_def
      server_without_schedulers_def two_node_server_def memory_node_row_def int_column_def run_simps)

text \<open>
  Claim C10. With no scheduler record the loop of \<open>validate_memory_alignment\<close> never
  runs, so \<open>memory_node_ids\<close> is still unassigned when the first set difference reads
  it: the check emits nothing and leaves with a \<open>NameError\<close>, which nothing in the check
  catches. This holds for every list of memory nodes, and for every server whose two
  queries return.
\<close>

theorem alignment_empty_schedulers_name_error:
  "memory_alignment_checks [] memory_nodes = ([], Inl (NameError ''memory_node_ids''))
   \<and> (get_scheduler_layout c = ([], Inr []) \<and> get_memory_nodes c = ([], Inr memory_nodes)
      \<longrightarrow> validate_memory_alignment c = ([], Inl (NameError ''memory_node_ids'')))"
  by (simp add: validate_memory_alignment_def memory_alignment_empty run_simps)

text \<open>
  The server without scheduler rows: both queries return, and the check raises.
\<close>

theorem alignment_empty_schedulers_name_error_witness:
  "get_scheduler_layout server_without_schedulers = ([], Inr [])
   \<and> validate_memory_alignment server_without_schedulers = ([], Inl (NameError ''memory_node_ids''))"
proof -
  obtain memory_nodes where m: "get_memory_nodes server_without_schedulers = ([], Inr memory_nodes)"
    using server_without_schedulers_nodes by blast
  from server_without_schedulers_layout m
    alignment_empty_schedulers_name_error [of memory_nodes server_without_schedulers]
  show ?thesis by blast
qed

text \<open>
  Claim C5. The query of \<open>get_scheduler_layout\<close> selects four columns, so every record
  it returns has exactly the keys \<open>scheduler_id\<close>, \<open>cpu_id\<close>, \<open>is_online\<close> and
  \<open>status\<close>, whatever \<open>parent_node_id\<close> the view holds. Hence, whenever the fetch
  returns: the first statement of the loop body of \<open>validate_memory_alignment\<close> leaves
  \<open>scheduler_node_ids\<close> empty on every record, no NUMA node is counted,
  \<open>recommend_maxdop\<close> emits the fallback warning and recommends 8, and
  \<open>validate_memory_alignment\<close> on a non-empty list only says that the layout cannot be
  validated.
\<close>

theorem scheduler_layout_without_node:
  assumes "get_scheduler_layout c = (ls, Inr schedulers)"
  shows "ls = []
    \<and> (\<forall>row \<in> set schedulers.
          dom row = {''scheduler_id'', ''cpu_id'', ''is_online'', ''status''}
          \<and> \<not> has_key row ''parent_node_id''
          \<and> alignment_collect row memory_nodes ([], None) = ([], Inr ([], None)))
    \<and> numa_nodes schedulers = []
    \<and> (\<exists>pre current_value.
          recommend_maxdop c
            = (pre @ [line_fallback, line_current current_value, line_recommended 8,
                      line_reason (ascii ''Single NUMA node - general best practice'')], Inr ()))
    \<and> (schedulers \<noteq> [] \<and> get_memory_nodes c = ([], Inr memory_nodes) \<longrightarrow>
          validate_memory_alignment c
            = ([mark_warn @ ascii '' NUMA layout cannot be fully validated (parent_node_id missing).''], Inr ()))"
proof -
  have ls: "ls = []"
    using assms query_dict_lines [of c "scheduler_query c"] by (simp add: get_scheduler_layout_def)
  have none: "\<forall>row \<in> set schedulers. \<not> has_key row ''parent_node_id''"
  proof
    fix row assume "row \<in> set schedulers"
    with assms show "\<not> has_key row ''parent_node_id''"
      by (rule scheduler_layout_no_node)
  qed
  have rows: "\<forall>row \<in> set schedulers.
          dom row = {''scheduler_id'', ''cpu_id'', ''is_online'', ''status''}
          \<and> \<not> has_key row ''parent_node_id''
          \<and> alignment_collect row memory_nodes ([], None) = ([], Inr ([], None))"
  proof (intro ballI conjI)
    fix row assume r: "row \<in> set schedulers"
    from assms r show "dom row = {''scheduler_id'', ''cpu_id'', ''is_online'', ''status''}"
      by (rule scheduler_layout_keys)
    from assms r show n: "\<not> has_key row ''parent_node_id''"
      by (rule scheduler_layout_no_node)
    from n show "alignment_collect row memory_nodes ([], None) = ([], Inr ([], None))"
      by (rule alignment_collect_without_key)
  qed
  from none have nodes: "numa_nodes schedulers = []"
    by (simp add: numa_nodes_without_key list_all_iff)
  from none have hd: "schedulers = [] \<or> \<not> has_key (hd schedulers) ''parent_node_id''"
    by (cases schedulers) simp_all
  obtain pre v where cur: "current_maxdop c = (pre, Inr v)"
    using current_maxdop_returns by blast
  have "recommend_maxdop c
      = (pre @ [line_fallback, line_current v, line_recommended 8,
                line_reason (ascii ''Single NUMA node - general best practice'')], Inr ())"
    using assms ls cur by (simp add: recommend_maxdop_def run_simps maxdop_fallback [OF hd])
  then have rec: "\<exists>pre current_value.
          recommend_maxdop c
            = (pre @ [line_fallback, line_current current_value, line_recommended 8,
                      line_reason (ascii ''Single NUMA node - general best practice'')], Inr ())"
    by blast
  have align: "schedulers \<noteq> [] \<and> get_memory_nodes c = ([], Inr memory_nodes) \<longrightarrow>
          validate_memory_alignment c
            = ([mark_warn @ ascii '' NUMA layout cannot be fully validated (parent_node_id missing).''], Inr ())"
  proof (cases schedulers)
    case Nil
    then show ?thesis by simp
  next
    case (Cons row rest)
    with none have "\<not> has_key row ''parent_node_id''" by simp
    with Cons assms ls show ?thesis
      by (simp add: validate_memory_alignment_def run_simps memory_alignment_without_key)
  qed
  from ls rows nodes rec align show ?thesis by (intro conjI)
qed

lemma two_node_server_layout:
  "\<exists>r0 r1 r2 r3. get_scheduler_layout two_node_server = ([], Inr [r0, r1, r2, r3])"
  by (simp add: get_scheduler_layout_def query_dict_def scheduler_query_def select_columns_def
      two_node_server_def scheduler_row_def int_column_def run_simps)

text \<open>
  The server with two NUMA nodes: the fetch returns its four records, and the
  recommendation is still the fallback to one node.
\<close>

theorem scheduler_layout_without_node_witness:
  "(\<exists>r0 r1 r2 r3. get_scheduler_layout two_node_server = ([], Inr [r0, r1, r2, r3]))
   \<and> (\<exists>pre current_value.
          recommend_maxdop two_node_server
            = (pre @ [line_fallback, line_current current_value, line_recommended 8,
                      line_reason (ascii ''Single NUMA node - general best practice'')], Inr ()))"
proof -
  obtain r0 r1 r2 r3 where l: "get_scheduler_layout two_node_server = ([], Inr [r0, r1, r2, r3])"
    using two_node_server_layout by blast
  from two_node_server_layout
    scheduler_layout_without_node [OF l, THEN conjunct2, THEN conjunct2, THEN conjunct2, THEN conjunct1]
  show ?thesis by (intro conjI)
qed

subsection \<open>Where the code departs from the claims\<close>

lemma get_system_specs_returns: "snd (get_system_specs c) = Inr ()"
  unfolding get_system_specs_def by (rule try_except_out_returns)

lemma scheduler_layout_refused:
  "cursor_fault c = None \<Longrightarrow> dm_os_schedulers c = Inl e \<Longrightarrow> get_scheduler_layout c = ([], Inl e)"
  by (simp add: get_scheduler_layout_def query_dict_def scheduler_query_def run_simps)

lemma seq_run_returned: "snd m = Inr () \<Longrightarrow> seq_run m n = (fst m @ fst n, snd n)"
  by (cases m) (simp add: run_simps)

text \<open>
  Claim C1 does not hold of the code. \<open>validate_numa_layout\<close>, \<open>validate_memory_alignment\<close>
  and \<open>recommend_maxdop\<close> call \<open>get_scheduler_layout\<close> outside any \<open>try\<close>, and
  \<open>query_dict\<close> re-raises. On every server that refuses the scheduler query the full run
  emits its heading and the lines of the first check, then leaves with the exception of
  the query at \<open>validate_numa_layout\<close>: no error line is emitted for it and none of the nine
  checks after it runs.
\<close>

theorem full_run_stops_at_refused_query:
  "cursor_fault c = None \<Longrightarrow> dm_os_schedulers c = Inl e \<Longrightarrow>
   validate_numa_layout c = ([], Inl e)
   \<and> run_all_diagnostics c h
       = ([[10] @ mark_wrench @ ascii '' Running Full SQL Server + VM Diagnostics'' @ [10] @ replicate 50 45]
          @ fst (get_system_specs c), Inl e)"
proof -
  assume c: "cursor_fault c = None" and s: "dm_os_schedulers c = Inl e"
  have v: "validate_numa_layout c = ([], Inl e)"
    by (simp add: validate_numa_layout_def scheduler_layout_refused [OF c s] run_simps)
  have "seq_run (validate_numa_layout c) n = ([], Inl e)" for n :: "unit run"
    by (simp add: v run_simps)
  then have "run_all_diagnostics c h
       = ([[10] @ mark_wrench @ ascii '' Running Full SQL Server + VM Diagnostics'' @ [10] @ replicate 50 45]
          @ fst (get_system_specs c), Inl e)"
    by (simp add: run_all_diagnostics_def steps_Cons seq_run_returned [OF get_system_specs_returns]
          seq_run_Inr out_def)
  with v show ?thesis by simp
qed

text \<open>The two-node server, when it refuses the scheduler query: the run ends in the exception.\<close>

theorem full_run_stops_at_refused_query_witness:
  "cursor_fault server_refusing_schedulers = None
   \<and> dm_os_schedulers server_refusing_schedulers = Inl DataSourceError
   \<and> snd (run_all_diagnostics server_refusing_schedulers quiet_host) = Inl DataSourceError"
proof -
  have c: "cursor_fault server_refusing_schedulers = None"
    by (simp add: server_refusing_schedulers_def two_node_server_def)
  have s: "dm_os_schedulers server_refusing_schedulers = Inl DataSourceError"
    by (simp add: server_refusing_schedulers_def)
  from c s full_run_stops_at_refused_query [OF c s, of quiet_host] show ?thesis by simp
qed

text \<open>
  On every run whose scheduler fetch returns, the recommendation is the fallback: after
  what the fetch of the current value emitted come the fallback warning and the three
  lines, with the value that fetch returned and the recommended value 8.
\<close>

lemma recommend_maxdop_on_returning_fetch:
  assumes "get_scheduler_layout c = ([], Inr schedulers)"
  shows "recommend_maxdop c
           = (fst (current_maxdop c)
              @ [line_fallback,
                 line_current (case snd (current_maxdop c) of Inr v \<Rightarrow> v | Inl e \<Rightarrow> NoneV),
                 line_recommended 8,
                 line_reason (ascii ''Single NUMA node - general best practice'')], Inr ())"
proof -
  obtain pre v where cur: "current_maxdop c = (pre, Inr v)"
    using current_maxdop_returns by blast
  have "list_all (\<lambda>row. \<not> has_key row ''parent_node_id'') schedulers"
    unfolding list_all_iff
  proof
    fix row assume "row \<in> set schedulers"
    with assms show "\<not> has_key row ''parent_node_id''"
      by (rule scheduler_layout_no_node)
  qed
  then have "schedulers = [] \<or> \<not> has_key (hd schedulers) ''parent_node_id''"
    by (cases schedulers) simp_all
  from maxdop_fallback [OF this] assms cur show ?thesis
    by (simp add: recommend_maxdop_def run_simps)
qed

text \<open>The value printed as current is the second column of the \<open>sp_configure\<close> row.\<close>

lemma current_maxdop_reads_second_column:
  "current_maxdop server_with_maxdop_4 = ([], Inr (IntV 0))"
  by (simp add: current_maxdop_def config_value_def server_with_maxdop_4_def two_node_server_def
        run_simps)

text \<open>
  Claim C4 does not hold of the code in all cases. \<open>recommend_maxdop\<close> reads the current
  value inside a \<open>try\<close> and then calls \<open>get_scheduler_layout\<close> outside it. On every
  server that refuses the scheduler query the check leaves with the exception of the
  query: it has emitted nothing, or the one line that the current value could not be
  read, and none of the three lines for the current value, the recommended value and the
  reason.
\<close>

theorem recommend_maxdop_stops_at_refused_query:
  "cursor_fault c = None \<Longrightarrow> dm_os_schedulers c = Inl e \<Longrightarrow>
   recommend_maxdop c = (fst (current_maxdop c), Inl e)
   \<and> (fst (current_maxdop c) = []
       \<or> fst (current_maxdop c) = [mark_err @ ascii '' Unable to retrieve current maxDOP.''])"
proof -
  assume c: "cursor_fault c = None" and s: "dm_os_schedulers c = Inl e"
  obtain pre v where cur: "current_maxdop c = (pre, Inr v)"
      and pre: "pre = [] \<or> pre = [mark_err @ ascii '' Unable to retrieve current maxDOP.'']"
    using current_maxdop_returns by blast
  have "recommend_maxdop c = (pre, Inl e)"
    by (simp add: recommend_maxdop_def cur scheduler_layout_refused [OF c s] run_simps)
  with cur pre show ?thesis by simp
qed

text \<open>
  The two-node server, when it refuses the scheduler query: the current value is read,
  and the check raises without a line.
\<close>

theorem recommend_maxdop_stops_at_refused_query_witness:
  "cursor_fault server_refusing_schedulers = None
   \<and> dm_os_schedulers server_refusing_schedulers = Inl DataSourceError
   \<and> current_maxdop server_refusing_schedulers = ([], Inr (IntV 0))
   \<and> recommend_maxdop server_refusing_schedulers = ([], Inl DataSourceError)"
proof -
  have c: "cursor_fault server_refusing_schedulers = None"
    by (simp add: server_refusing_schedulers_def two_node_server_def)
  have s: "dm_os_schedulers server_refusing_schedulers = Inl DataSourceError"
    by (simp add: server_refusing_schedulers_def)
  have m: "current_maxdop server_refusing_schedulers = ([], Inr (IntV 0))"
    by (simp add: current_maxdop_def config_value_def sp_configure_rows_def
          server_refusing_schedulers_def two_node_server_def run_simps)
  from c s m recommend_maxdop_stops_at_refused_query [OF c s] show ?thesis by simp
qed

text \<open>
  Claim C2 does not hold of the code. The \<open>return\<close> of \<open>validate_memory_alignment\<close> stands
  in the loop body, so the check ends at the first scheduler record: whatever the records
  are, it emits nothing or the one line that the layout cannot be validated, and it never
  reports a set difference. With no record it raises instead of warning; with a first
  record on node 0 and memory only on node 1 it emits nothing, though both differences are
  non-empty; and with a first record that does not expose the node it warns, though a later
  record exposes node 0 and memory is on node 0.
\<close>

theorem memory_alignment_never_compares:
  "(fst (memory_alignment_checks schedulers memory_nodes) = []
     \<or> fst (memory_alignment_checks schedulers memory_nodes)
         = [mark_warn @ ascii '' NUMA layout cannot be fully validated (parent_node_id missing).''])
   \<and> memory_alignment_checks [] [memory_node_row 0] = ([], Inl (NameError ''memory_node_ids''))
   \<and> memory_alignment_checks [record_with_node 0 0] [memory_node_row 1] = ([], Inr ())
   \<and> memory_alignment_checks [record_without_node 0, record_with_node 1 0] [memory_node_row 0]
       = ([mark_warn @ ascii '' NUMA layout cannot be fully validated (parent_node_id missing).''], Inr ())"
proof (intro conjI)
  show "fst (memory_alignment_checks schedulers memory_nodes) = []
     \<or> fst (memory_alignment_checks schedulers memory_nodes)
         = [mark_warn @ ascii '' NUMA layout cannot be fully validated (parent_node_id missing).'']"
  proof (cases schedulers)
    case Nil
    then show ?thesis by (simp add: memory_alignment_empty)
  next
    case (Cons row rest)
    show ?thesis
    proof (cases "has_key row ''parent_node_id''")
      case False
      with Cons show ?thesis by (simp add: memory_alignment_without_key)
    next
      case True
      then obtain v where v: "getitem row ''parent_node_id'' = Inr v"
        by (auto simp: has_key_def getitem_def)
      show ?thesis
      proof (cases "getitems ''memory_node_id'' memory_nodes")
        case (Inl e)
        with Cons True v show ?thesis
          by (simp add: memory_alignment_checks_def alignment_collect_def run_simps)
      next
        case (Inr ms)
        with Cons True v show ?thesis
          by (simp add: memory_alignment_checks_def alignment_collect_def set_add_def run_simps)
      qed
    qed
  qed
next
  show "memory_alignment_checks [] [memory_node_row 0] = ([], Inl (NameError ''memory_node_ids''))"
    by (rule memory_alignment_empty)
next
  show "memory_alignment_checks [record_with_node 0 0] [memory_node_row 1] = ([], Inr ())"
    by (simp add: memory_alignment_checks_def alignment_collect_def record_with_node_def
          memory_node_row_def has_key_def getitem_def set_add_def set_of_def run_simps)
next
  show "memory_alignment_checks [record_without_node 0, record_with_node 1 0] [memory_node_row 0]
       = ([mark_warn @ ascii '' NUMA layout cannot be fully validated (parent_node_id missing).''], Inr ())"
    by (simp add: memory_alignment_without_key record_without_node_def has_key_def)
qed

lemma numa_loop_last:
  "numa_loop (rows @ [row]) locals =
     (case numa_loop rows locals of Inl e \<Rightarrow> Inl e | Inr st \<Rightarrow> numa_loop [row] None)"
  by (induction rows arbitrary: locals) (simp_all split: sum.splits)

text \<open>
  The verdict of \<open>validate_numa_layout\<close> rests on the last record alone, and the warning
  about unbalanced nodes is never emitted.
\<close>

lemma numa_layout_last_record_only:
  "numa_loop rows None = Inr st \<Longrightarrow>
   numa_layout_checks (rows @ [row]) = numa_layout_checks [row]"
  by (simp add: numa_layout_checks_def numa_loop_last)

lemma numa_layout_never_unbalanced:
  "fst (numa_layout_checks schedulers) = []
   \<or> hd (fst (numa_layout_checks schedulers)) = mark_ok @ ascii '' NUMA CPU distribution appears balanced.''"
proof (cases "numa_loop schedulers None")
  case (Inl e)
  then show ?thesis by (simp add: numa_layout_checks_def run_simps)
next
  case (Inr locals)
  then show ?thesis
    by (cases locals) (auto simp: numa_layout_checks_def set_of_def Let_def run_simps)
qed

text \<open>
  Claim C3 does not hold of the code. On the server with CPUs 0, 1, 2 on node 0, CPU 3 on
  node 1 and CPU 0 offline, the check says that the distribution is balanced and that all
  schedulers are online: the test of \<open>is_online\<close> stands after the loop and sees the last
  record, and nothing ever fills \<open>node_cpu_map\<close>.
\<close>

theorem numa_layout_misses_offline_scheduler:
  "validate_numa_layout two_node_server
     = ([mark_ok @ ascii '' NUMA CPU distribution appears balanced.'',
         mark_ok @ ascii '' All schedulers are online.''], Inr ())"
  by (simp add: validate_numa_layout_def get_scheduler_layout_def query_dict_def scheduler_query_def
        two_node_server_def select_columns_def int_column_def scheduler_row_def numa_layout_checks_def
        getitem_def set_of_def run_simps)

text \<open>An integer of fewer than 54 bits goes through a float unchanged.\<close>

lemma round53_small: "\<bar>v\<bar> < 2 ^ 53 \<Longrightarrow> round53 v = v"
  by (simp add: round53_def)

lemma float_of_int_small: "\<bar>v\<bar> < 2 ^ 53 \<Longrightarrow> float_of_int v = Inr v"
proof -
  assume small: "\<bar>v\<bar> < 2 ^ 53"
  have "(2::int) ^ 53 \<le> 2 ^ 1024" by (rule power_increasing) simp_all
  with small have "\<not> 2 ^ 1024 \<le> \<bar>v\<bar>" by linarith
  with small show ?thesis by (simp add: float_of_int_def round53_small)
qed

text \<open>
  With all four values present as integers, the maximum of fewer than 54 bits, the two
  memory rules are judged as the claim says, each on its own.
\<close>

lemma memory_rules_when_present:
  "\<bar>max_mem\<bar> < 2 ^ 53 \<Longrightarrow>
   memory_config_checks
     [(''min_server_memory_mb'', IntV min_mem), (''max_server_memory_mb'', IntV max_mem),
      (''total_physical_memory_mb'', IntV total_mem), (''available_physical_memory_mb'', IntV available)]
   = ([[10] @ mark_glass @ ascii '' SQL Server Memory Configuration:'',
       ascii '' - Total Physical RAM: '' @ str_int total_mem @ ascii '' MB'',
       ascii '' - Available RAM: '' @ str_int available @ ascii '' MB'',
       ascii '' - SQL Min Memory: '' @ str_int min_mem @ ascii '' MB'',
       ascii '' - SQL Max Memory: '' @ str_int max_mem @ ascii '' MB'',
       if total_mem < max_mem
       then mark_warn @ ascii '' SQL Max Memory exceeds physical RAM. Risk of OS starvation.''
       else mark_ok @ ascii '' SQL Max Memory fits within physical RAM.'',
       if 4 * min_mem < max_mem
       then mark_warn @ ascii '' SQL Min Memory is set very low compared to Max. Could delay memory ramp-up.''
       else mark_ok @ ascii '' SQL Min/Max memory ratio looks reasonable.''], Inr ())"
  by (simp add: memory_config_checks_def getitem_def float_of_int_small run_simps)

text \<open>
  Claim C6 does not hold of the code where a value is absent. \<open>validate_memory_config\<close>
  only stops on the empty dictionary. When \<open>sys.dm_os_sys_memory\<close> gives no row it emits
  the heading and leaves with a \<open>KeyError\<close>, without any error line; when reading that view
  is refused the error line of the fetch is followed by the heading and the \<open>KeyError\<close>;
  when the minimum server memory has no row it prints the four values, judges the first
  rule and leaves with a \<open>TypeError\<close> at the second.
\<close>

theorem memory_config_absent_value_raises:
  "validate_memory_config server_without_sys_memory
     = ([[10] @ mark_glass @ ascii '' SQL Server Memory Configuration:''],
        Inl (KeyError ''total_physical_memory_mb''))
   \<and> validate_memory_config server_refusing_sys_memory
     = ([mark_err @ ascii '' Unable to retrieve memory configuration.'',
         [10] @ mark_glass @ ascii '' SQL Server Memory Configuration:''],
        Inl (KeyError ''total_physical_memory_mb''))
   \<and> validate_memory_config server_without_min_memory
     = ([[10] @ mark_glass @ ascii '' SQL Server Memory Configuration:'',
         ascii '' - Total Physical RAM: '' @ str_int 65536 @ ascii '' MB'',
         ascii '' - Available RAM: '' @ str_int 32768 @ ascii '' MB'',
         ascii '' - SQL Min Memory: None MB'',
         ascii '' - SQL Max Memory: '' @ str_int 128 @ ascii '' MB'',
         mark_ok @ ascii '' SQL Max Memory fits within physical RAM.''],
        Inl TypeError)"
proof (intro conjI)
  show "validate_memory_config server_without_sys_memory
     = ([[10] @ mark_glass @ ascii '' SQL Server Memory Configuration:''],
        Inl (KeyError ''total_physical_memory_mb''))"
    by (simp add: validate_memory_config_def get_memory_config_def sys_memory_query_def config_value_def
          sp_configure_rows_def server_without_sys_memory_def two_node_server_def select_columns_def
          memory_config_checks_def getitem_def run_simps)
next
  show "validate_memory_config server_refusing_sys_memory
     = ([mark_err @ ascii '' Unable to retrieve memory configuration.'',
         [10] @ mark_glass @ ascii '' SQL Server Memory Configuration:''],
        Inl (KeyError ''total_physical_memory_mb''))"
    by (simp add: validate_memory_config_def get_memory_config_def sys_memory_query_def config_value_def
          sp_configure_rows_def server_refusing_sys_memory_def two_node_server_def select_columns_def
          memory_config_checks_def memory_config_failed_def getitem_def run_simps)
next
  show "validate_memory_config server_without_min_memory
     = ([[10] @ mark_glass @ ascii '' SQL Server Memory Configuration:'',
         ascii '' - Total Physical RAM: '' @ str_int 65536 @ ascii '' MB'',
         ascii '' - Available RAM: '' @ str_int 32768 @ ascii '' MB'',
         ascii '' - SQL Min Memory: None MB'',
         ascii '' - SQL Max Memory: '' @ str_int 128 @ ascii '' MB'',
         mark_ok @ ascii '' SQL Max Memory fits within physical RAM.''],
        Inl TypeError)"
    by (simp add: validate_memory_config_def get_memory_config_def sys_memory_query_def config_value_def
          sp_configure_rows_def server_without_min_memory_def two_node_server_def select_columns_def
          memory_config_checks_def getitem_def trunc_div_def round53_small float_of_int_small
          ascii_def run_simps)
qed

end
